theory Spec2Isabelle
  imports
    Complex_Main
    "HOL-Library.Char_ord"
    "HOL-Library.List_Lexorder"
    "HOL-Library.Product_Lexorder"
    "HOL-Library.Multiset"
begin

section \<open>BitCraft Mercantile: the arbitrage pipeline of \<^verbatim>\<open>src/app/main.py\<close>\<close>

text \<open>
  The program is one function, \<^verbatim>\<open>main\<close>, that works on pandas tables. Each stage of it is
  embedded as a function on lists of rows; a row is a record whose fields are the columns
  the table has at that stage. The conventions are:
  \<^item> Python integers are \<^typ>\<open>int\<close>, and \<^verbatim>\<open>astype(int)\<close> on an integer column is the identity.
    An integer column holds signed 64-bit integers: the sum of line 135 and the products
    of lines 289 and 291 are taken over whole columns and wrap around, which \<open>int64\<close>
    writes out.
  \<^item> A cell of a float column is an \<open>npfloat\<close>: a finite value or one of the three special
    values. A finite value is the exact real number where NumPy holds the nearest double;
    which cells are infinite or missing does not depend on that.
  \<^item> A request that raises is \<open>None\<close>; an exception that ends the run is \<open>Inl\<close>.
\<close>

subsection \<open>Data\<close>

text \<open>
  One element of \<^verbatim>\<open>buyOrders\<close> or \<^verbatim>\<open>sellOrders\<close>, restricted to the keys that line 129
  reads. The price and the quantity are the integers that \<^verbatim>\<open>astype(int)\<close> reads from the
  values of the JSON document.
\<close>

record raw_order =
  itemId :: int
  itemType :: int
  priceThreshold :: int
  quantity :: int
  claimEntityId :: string
  claimName :: string
  regionName :: string

text \<open>The locals of lines 89 to 92; an absent key of the item is the default of its \<^verbatim>\<open>get\<close>.\<close>

record item =
  item_name :: string
  item_type :: int
  item_id :: int
  item_volume :: int

text \<open>The answer to \<^verbatim>\<open>market/{item_type_str}/{item_id}\<close>.\<close>

record item_market =
  buyOrders :: "raw_order list"
  sellOrders :: "raw_order list"

text \<open>The five join columns, shared by every table from line 129 on.\<close>

record item_cols =
  itemName :: string
  itemTypeStr :: string
  itemId :: int
  itemType :: int
  itemVolume :: int

text \<open>A row of \<^verbatim>\<open>all_buys\<close> or \<^verbatim>\<open>all_sells\<close>: the columns \<^verbatim>\<open>market_cols_0\<close>.\<close>

record order_row = item_cols +
  priceThreshold :: int
  quantity :: int
  claimEntityId :: string
  claimName :: string
  regionName :: string

text \<open>A row of \<^verbatim>\<open>merged_df\<close> right after \<^verbatim>\<open>pd.merge\<close> (sell side left, buy side right).\<close>

record merged = item_cols +
  Selling_Price :: int
  Selling_Quantity :: int
  sellClaimEntityId :: string
  Selling_Claim :: string
  Selling_Region :: string
  Buying_Price :: int
  Buying_Quantity :: int
  buyClaimEntityId :: string
  Buying_Claim :: string
  Buying_Region :: string

text \<open>The same row with the two columns of lines 183 and 184 added.\<close>

record trade = merged +
  Trade_Quantity :: int
  Unit_Profit :: int

subsection \<open>Order Book Normalizer (lines 88 to 140)\<close>

text \<open>The value an integer column keeps of a result: its residue in the signed 64-bit range.\<close>

definition int64 :: "int \<Rightarrow> int" where
  "int64 x = (x + 2 ^ 63) mod 2 ^ 64 - 2 ^ 63"

definition item_type_str :: "int \<Rightarrow> string option" where
  "item_type_str t = (if t = 0 then Some ''item'' else if t = 1 then Some ''cargo'' else None)"

definition upper_char :: "char \<Rightarrow> char" where
  "upper_char c =
     (if CHR ''a'' \<le> c \<and> c \<le> CHR ''z'' then char_of (of_char c - (32::nat)) else c)"

definition lower_char :: "char \<Rightarrow> char" where
  "lower_char c =
     (if CHR ''A'' \<le> c \<and> c \<le> CHR ''Z'' then char_of (of_char c + (32::nat)) else c)"

text \<open>\<^verbatim>\<open>str.capitalize\<close> on ASCII text.\<close>

definition capitalize :: "string \<Rightarrow> string" where
  "capitalize s = (case s of [] \<Rightarrow> [] | c # cs \<Rightarrow> upper_char c # map lower_char cs)"

text \<open>Lines 117 to 130: the order as a table row, with the three columns of the item added.\<close>

definition add_fields :: "item \<Rightarrow> string \<Rightarrow> raw_order \<Rightarrow> order_row" where
  "add_fields it type_str ord =
     \<lparr> itemName = item_name it,
       itemTypeStr = capitalize type_str,
       itemId = raw_order.itemId ord,
       itemType = raw_order.itemType ord,
       itemVolume = item_volume it,
       priceThreshold = raw_order.priceThreshold ord,
       quantity = raw_order.quantity ord,
       claimEntityId = raw_order.claimEntityId ord,
       claimName = raw_order.claimName ord,
       regionName = raw_order.regionName ord \<rparr>"

type_synonym group_key = "string \<times> string \<times> int \<times> int \<times> int \<times> int \<times> string \<times> string \<times> string"

text \<open>The grouping columns of line 135: \<^verbatim>\<open>market_cols_0\<close> without \<^verbatim>\<open>quantity\<close>, in that order.\<close>

definition by_cols :: "order_row \<Rightarrow> group_key" where
  "by_cols r =
     (itemName r, itemTypeStr r, itemId r, itemType r, itemVolume r,
      priceThreshold r, claimEntityId r, claimName r, regionName r)"

definition group_row :: "group_key \<Rightarrow> int \<Rightarrow> order_row" where
  "group_row k q =
     (case k of (n, ts, i, t, v, p, c, cn, rn) \<Rightarrow>
        \<lparr> itemName = n, itemTypeStr = ts, itemId = i, itemType = t, itemVolume = v,
          priceThreshold = p, quantity = q, claimEntityId = c, claimName = cn,
          regionName = rn \<rparr>)"

text \<open>
  \<^verbatim>\<open>groupby(by=..., as_index=False)["quantity"].sum()\<close>: one row for each distinct value of
  the grouping columns, in sorted order of these values, with the quantities of the group
  added up in the 64-bit column.
\<close>

definition groupby_sum :: "order_row list \<Rightarrow> order_row list" where
  "groupby_sum rows =
     map (\<lambda>k. group_row k
                (int64 (sum_list (map quantity (filter (\<lambda>r. by_cols r = k) rows)))))
       (sort (remdups (map by_cols rows)))"

definition normalize_pool :: "item \<Rightarrow> string \<Rightarrow> raw_order list \<Rightarrow> order_row list" where
  "normalize_pool it type_str orders = groupby_sum (map (add_fields it type_str) orders)"

subsection \<open>Arbitrage Matcher (lines 142 to 190)\<close>

definition join_columns :: "'a item_cols_scheme \<Rightarrow> string \<times> string \<times> int \<times> int \<times> int" where
  "join_columns r = (itemName r, itemTypeStr r, itemId r, itemType r, itemVolume r)"

text \<open>One row of the merge: the join columns, the renamed sell columns, the renamed buy columns.\<close>

definition merge_row :: "order_row \<Rightarrow> order_row \<Rightarrow> merged" where
  "merge_row s b =
     \<lparr> itemName = itemName s, itemTypeStr = itemTypeStr s, itemId = itemId s,
       itemType = itemType s, itemVolume = itemVolume s,
       Selling_Price = priceThreshold s,
       Selling_Quantity = quantity s,
       sellClaimEntityId = claimEntityId s,
       Selling_Claim = claimName s,
       Selling_Region = regionName s,
       Buying_Price = priceThreshold b,
       Buying_Quantity = quantity b,
       buyClaimEntityId = claimEntityId b,
       Buying_Claim = claimName b,
       Buying_Region = regionName b \<rparr>"

text \<open>
  \<^verbatim>\<open>pd.merge(left=all_sells, right=all_buys, on=join_columns, how="inner")\<close>: every pair of
  a left and a right row that agree on the join columns, in the order of the left rows.
\<close>

definition pd_merge :: "order_row list \<Rightarrow> order_row list \<Rightarrow> merged list" where
  "pd_merge all_sells all_buys =
     concat (map (\<lambda>s. map (merge_row s)
                        (filter (\<lambda>b. join_columns s = join_columns b) all_buys))
                 all_sells)"

text \<open>
  Lines 181 to 184: the row extended by \<^verbatim>\<open>Trade Quantity\<close> and \<^verbatim>\<open>Unit Profit\<close>. The
  difference of two prices that are not negative stays in the range of the column.
\<close>

definition profitability :: "merged \<Rightarrow> trade" where
  "profitability m =
     merged.extend m
       (trade.fields (min (Buying_Quantity m) (Selling_Quantity m))
                     (Buying_Price m - Selling_Price m))"

text \<open>Line 178.\<close>

definition touches_claim :: "string \<Rightarrow> merged \<Rightarrow> bool" where
  "touches_claim claim_id m \<longleftrightarrow> sellClaimEntityId m = claim_id \<or> buyClaimEntityId m = claim_id"

text \<open>Lines 169 to 187 for one item.\<close>

definition match_orders :: "string \<Rightarrow> order_row list \<Rightarrow> order_row list \<Rightarrow> trade list" where
  "match_orders claim_id all_sells all_buys =
     filter (\<lambda>t. Unit_Profit t > 0)
       (map profitability
          (filter (touches_claim claim_id) (pd_merge all_sells all_buys)))"

text \<open>
  The body of the loop of line 79 for one item. The request is a parameter; \<open>None\<close> is a
  request that raised. An item of unknown type, a failed request and an empty order side
  all contribute no row.
\<close>

definition process_item ::
  "(string \<Rightarrow> int \<Rightarrow> item_market option) \<Rightarrow> string \<Rightarrow> item \<Rightarrow> trade list" where
  "process_item request claim_id it =
     (case item_type_str (item_type it) of
        None \<Rightarrow> []
      | Some type_str \<Rightarrow>
          (case request type_str (item_id it) of
             None \<Rightarrow> []
           | Some item_market \<Rightarrow>
               if sellOrders item_market = [] \<or> buyOrders item_market = [] then []
               else match_orders claim_id
                      (normalize_pool it type_str (sellOrders item_market))
                      (normalize_pool it type_str (buyOrders item_market))))"

text \<open>The table \<^verbatim>\<open>full_df\<close> at line 191.\<close>

definition collect_trades ::
  "(string \<Rightarrow> int \<Rightarrow> item_market option) \<Rightarrow> string \<Rightarrow> item list \<Rightarrow> trade list" where
  "collect_trades request claim_id item_list =
     concat (map (process_item request claim_id) item_list)"

subsection \<open>Distance Resolver (lines 193 to 235)\<close>

datatype npfloat = Fin real | PInf | NInf | NaN

text \<open>The locals of lines 218 and 219; an absent key of the claim is the default 0 of its \<^verbatim>\<open>get\<close>.\<close>

record claim =
  claim_X :: real
  claim_Z :: real

text \<open>\<^verbatim>\<open>pd.unique\<close>: the distinct values in the order of their first appearance.\<close>

definition pd_unique :: "'a list \<Rightarrow> 'a list" where
  "pd_unique xs = rev (remdups (rev xs))"

text \<open>Line 194; \<^verbatim>\<open>ravel("K")\<close> reads the two columns one after the other.\<close>

definition claim_list :: "trade list \<Rightarrow> string list" where
  "claim_list full_df = pd_unique (map buyClaimEntityId full_df @ map sellClaimEntityId full_df)"

text \<open>\<^verbatim>\<open>np.rint\<close>: the nearest integer, the even one of two that are equally near.\<close>

definition rint :: "real \<Rightarrow> int" where
  "rint x =
     (let f = \<lfloor>x\<rfloor>; d = x - of_int f
      in if d < 1 / 2 then f else if 1 / 2 < d then f + 1 else if even f then f else f + 1)"

text \<open>\<^verbatim>\<open>np.round(x, 2)\<close> on a finite value.\<close>

definition round2 :: "real \<Rightarrow> real" where
  "round2 x = of_int (rint (x * 100)) / 100"

text \<open>Line 221.\<close>

definition dist_claim :: "real \<Rightarrow> real \<Rightarrow> claim \<Rightarrow> real" where
  "dist_claim X0 Z0 c = round2 (sqrt ((X0 - claim_X c)\<^sup>2 + (Z0 - claim_Z c)\<^sup>2) / 3)"

text \<open>
  The body of the loop of line 200: a request that raised leaves the dictionary as it is.
\<close>

definition resolve_claim ::
  "(string \<Rightarrow> claim option) \<Rightarrow> real \<Rightarrow> real \<Rightarrow> (string \<rightharpoonup> real) \<Rightarrow> string \<Rightarrow> (string \<rightharpoonup> real)" where
  "resolve_claim request X0 Z0 dist_dict claim_id_iter =
     (case request claim_id_iter of
        None \<Rightarrow> dist_dict
      | Some c \<Rightarrow> dist_dict(claim_id_iter \<mapsto> dist_claim X0 Z0 c))"

definition resolve_distances ::
  "(string \<Rightarrow> claim option) \<Rightarrow> real \<Rightarrow> real \<Rightarrow> string list \<Rightarrow> (string \<rightharpoonup> real)" where
  "resolve_distances request X0 Z0 claims = foldl (resolve_claim request X0 Z0) Map.empty claims"

text \<open>A row of \<^verbatim>\<open>full_df\<close> from line 235 on: one triple of columns for each vehicle handled so far.\<close>

record vehicle_cols =
  Quantity :: int
  Profit :: int
  Profit_per_1k_Dist :: npfloat

record ranked = trade +
  Distance :: npfloat
  vehicle_columns :: "(string \<times> vehicle_cols) list"

text \<open>Lines 229 to 233: the claim of the trade that is not the claim of interest.\<close>

definition target_claim :: "string \<Rightarrow> 'a merged_scheme \<Rightarrow> string" where
  "target_claim claim_id r =
     (if buyClaimEntityId r = claim_id then sellClaimEntityId r else buyClaimEntityId r)"

text \<open>Line 235: \<^verbatim>\<open>dist_dict.get(target_claim, np.inf)\<close>.\<close>

definition with_distance :: "string \<Rightarrow> (string \<rightharpoonup> real) \<Rightarrow> trade \<Rightarrow> ranked" where
  "with_distance claim_id dist_dict t =
     trade.extend t
       (ranked.fields
          (case dist_dict (target_claim claim_id t) of None \<Rightarrow> PInf | Some d \<Rightarrow> Fin d)
          [])"

subsection \<open>Capacity Model (lines 237 to 291)\<close>

datatype error = KeyError | ZeroDivisionError

record vehicle =
  item_slots :: int
  cargo_slots :: int
  item_slot_size :: int
  cargo_slot_size :: int

definition player_capacity :: vehicle where
  "player_capacity =
     \<lparr> item_slots = 25, cargo_slots = 1, item_slot_size = 6000, cargo_slot_size = 6000 \<rparr>"

definition vehicle_capacity :: "(string \<times> vehicle) list" where
  "vehicle_capacity =
     [ (''Raft'',
         \<lparr> item_slots = 6, cargo_slots = 1, item_slot_size = 6000, cargo_slot_size = 60000 \<rparr>),
       (''Skiff'',
         \<lparr> item_slots = 24, cargo_slots = 4, item_slot_size = 6000, cargo_slot_size = 60000 \<rparr>),
       (''Clipper'',
         \<lparr> item_slots = 30, cargo_slots = 6, item_slot_size = 6000, cargo_slot_size = 60000 \<rparr>),
       (''Cargo Ship'',
         \<lparr> item_slots = 30, cargo_slots = 10, item_slot_size = 6000, cargo_slot_size = 60000 \<rparr>) ]"

definition base_item_qty :: int where
  "base_item_qty = item_slot_size player_capacity * item_slots player_capacity"

definition base_cargo_qty :: int where
  "base_cargo_qty = cargo_slot_size player_capacity * cargo_slots player_capacity"

text \<open>Lines 275 to 282.\<close>

definition slot_qty :: "vehicle \<Rightarrow> string \<Rightarrow> int" where
  "slot_qty v type_str =
     (if type_str = ''Item'' then item_slot_size v * item_slots v + base_item_qty
      else if type_str = ''Cargo'' then cargo_slot_size v * cargo_slots v + base_cargo_qty
      else 0)"

text \<open>
  \<^verbatim>\<open>int(qty / volume)\<close>: the quotient cut off towards zero. A zero volume ends the run:
  the division raises on a Python integer, and on a NumPy integer it gives an infinite or
  missing quotient on which \<^verbatim>\<open>int\<close> raises. The model has one error for these.
\<close>

definition int_truediv :: "int \<Rightarrow> int \<Rightarrow> error + int" where
  "int_truediv a b =
     (if b = 0 then Inl ZeroDivisionError else Inr (sgn a * sgn b * (\<bar>a\<bar> div \<bar>b\<bar>)))"

text \<open>Lines 284 and 285.\<close>

definition vehicle_quantity :: "vehicle \<Rightarrow> ranked \<Rightarrow> error + int" where
  "vehicle_quantity v r =
     (case int_truediv (slot_qty v (itemTypeStr r)) (itemVolume r) of
        Inl e \<Rightarrow> Inl e
      | Inr qty \<Rightarrow> Inr (min (Trade_Quantity r) qty))"

text \<open>
  An integer column divided by a float column: no division raises; a zero divisor gives
  an infinity of the sign of the dividend, and \<open>NaN\<close> for a zero dividend. On finite
  operands the model has the exact quotient, and \<open>np_round\<close> its exact rounding, where a
  run has doubles: these can differ in the last decimal kept, for a quotient that lies
  half way between two hundredths. Which cells are finite is the same in both.
\<close>

fun truediv :: "int \<Rightarrow> npfloat \<Rightarrow> npfloat" where
  "truediv n (Fin d) =
     (if d = 0 then (if 0 < n then PInf else if n < 0 then NInf else NaN)
      else Fin (of_int n / d))"
| "truediv n PInf = Fin 0"
| "truediv n NInf = Fin 0"
| "truediv n NaN = NaN"

text \<open>\<^verbatim>\<open>np.round(x, 2)\<close> on a cell.\<close>

fun np_round :: "npfloat \<Rightarrow> npfloat" where
  "np_round (Fin x) = Fin (round2 x)"
| "np_round PInf = PInf"
| "np_round NInf = NInf"
| "np_round NaN = NaN"

text \<open>
  Lines 285 to 291 for one vehicle and one row. The products of lines 289 and 291 are
  products of 64-bit columns.
\<close>

definition add_vehicle :: "string \<times> vehicle \<Rightarrow> ranked \<Rightarrow> error + ranked" where
  "add_vehicle nv r =
     (case vehicle_quantity (snd nv) r of
        Inl e \<Rightarrow> Inl e
      | Inr q \<Rightarrow>
          Inr (r\<lparr> vehicle_columns := vehicle_columns r @
                 [(fst nv,
                   \<lparr> Quantity = q,
                     Profit = int64 (q * Unit_Profit r),
                     Profit_per_1k_Dist =
                       np_round (truediv (int64 (1000 * int64 (q * Unit_Profit r)))
                                   (Distance r)) \<rparr>)] \<rparr>))"

text \<open>The loop of line 274 over the rows: the first exception ends it.\<close>

fun each_row :: "('a \<Rightarrow> error + 'b) \<Rightarrow> 'a list \<Rightarrow> error + 'b list" where
  "each_row f [] = Inr []"
| "each_row f (x # xs) =
     (case f x of
        Inl e \<Rightarrow> Inl e
      | Inr y \<Rightarrow> (case each_row f xs of Inl e \<Rightarrow> Inl e | Inr ys \<Rightarrow> Inr (y # ys)))"

text \<open>The loop of line 273 over the vehicles.\<close>

fun capacity_limits :: "(string \<times> vehicle) list \<Rightarrow> ranked list \<Rightarrow> error + ranked list" where
  "capacity_limits [] full_df = Inr full_df"
| "capacity_limits (nv # vehicles) full_df =
     (case each_row (add_vehicle nv) full_df of
        Inl e \<Rightarrow> Inl e
      | Inr full_df' \<Rightarrow> capacity_limits vehicles full_df')"

text \<open>
  Lines 193 to 291. A table without rows has no \<^verbatim>\<open>buyClaimEntityId\<close> column at line 194
  when no item was merged, and no \<^verbatim>\<open>Raft Quantity\<close> column at line 287 otherwise: both end
  the run with a \<^verbatim>\<open>KeyError\<close>.
\<close>

definition rank_trades ::
  "(string \<Rightarrow> claim option) \<Rightarrow> string \<Rightarrow> real \<Rightarrow> real \<Rightarrow> trade list \<Rightarrow> error + ranked list" where
  "rank_trades request claim_id X0 Z0 full_df =
     (if full_df = [] then Inl KeyError
      else capacity_limits vehicle_capacity
             (map (with_distance claim_id
                     (resolve_distances request X0 Z0 (claim_list full_df)))
                  full_df))"

subsection \<open>Report Assembler (lines 293 to 334)\<close>

text \<open>
  Lines 294 and 297 remove and relabel columns that hold integers and text; line 300
  reorders the rows with the default algorithm of \<^verbatim>\<open>sort_values\<close> and changes no cell. The
  stages after it are stated for every table that has the rows of the ranked one.
\<close>

text \<open>Line 308 on a cell and on a row.\<close>

fun replace_inf :: "npfloat \<Rightarrow> npfloat" where
  "replace_inf PInf = NaN"
| "replace_inf NInf = NaN"
| "replace_inf x = x"

definition replace_row :: "ranked \<Rightarrow> ranked" where
  "replace_row r =
     r\<lparr> Distance := replace_inf (Distance r),
        vehicle_columns :=
          map (\<lambda>nc. (fst nc,
                 (snd nc)\<lparr> Profit_per_1k_Dist := replace_inf (Profit_per_1k_Dist (snd nc)) \<rparr>))
              (vehicle_columns r) \<rparr>"

text \<open>A row with a missing value; only the float columns can hold one.\<close>

definition has_na :: "ranked \<Rightarrow> bool" where
  "has_na r \<longleftrightarrow>
     Distance r = NaN \<or> list_ex (\<lambda>nc. Profit_per_1k_Dist (snd nc) = NaN) (vehicle_columns r)"

definition dropna :: "ranked list \<Rightarrow> ranked list" where
  "dropna full_df = filter (\<lambda>r. \<not> has_na r) full_df"

text \<open>Lines 308 and 309.\<close>

definition final_table :: "ranked list \<Rightarrow> ranked list" where
  "final_table full_df = dropna (map replace_row full_df)"

text \<open>Line 317 and 318 on the final table.\<close>

definition overview_claim_N :: "ranked list \<Rightarrow> nat" where
  "overview_claim_N full_df =
     length (pd_unique (map Buying_Claim full_df @ map Selling_Claim full_df))"

text \<open>
  The cells written at lines 322 and 323; the two cells that hold times are left out.
  \<open>None\<close> is the branch of line 334, which writes nothing.
\<close>

record overview =
  D14 :: nat
  G14 :: nat

definition upload_overview :: "ranked list \<Rightarrow> overview option" where
  "upload_overview full_df =
     (if length full_df > 0
      then Some \<lparr> D14 = length (remdups (map itemName full_df)), G14 = overview_claim_N full_df \<rparr>
      else None)"

subsection \<open>The properties as the specification words them\<close>




text \<open>The join key of the specification: item id, type code and volume.\<close>

definition item_key :: "order_row \<Rightarrow> int \<times> int \<times> int" where
  "item_key r = (itemId r, itemType r, itemVolume r)"

text \<open>
  The sell order and the buy order that a row of the merge pairs, read back from the
  columns of the row.
\<close>

definition sell_record :: "'a merged_scheme \<Rightarrow> order_row" where
  "sell_record m =
     \<lparr> itemName = itemName m, itemTypeStr = itemTypeStr m, itemId = itemId m,
       itemType = itemType m, itemVolume = itemVolume m,
       priceThreshold = Selling_Price m,
       quantity = Selling_Quantity m,
       claimEntityId = sellClaimEntityId m,
       claimName = Selling_Claim m,
       regionName = Selling_Region m \<rparr>"

definition buy_record :: "'a merged_scheme \<Rightarrow> order_row" where
  "buy_record m =
     \<lparr> itemName = itemName m, itemTypeStr = itemTypeStr m, itemId = itemId m,
       itemType = itemType m, itemVolume = itemVolume m,
       priceThreshold = Buying_Price m,
       quantity = Buying_Quantity m,
       claimEntityId = buyClaimEntityId m,
       claimName = Buying_Claim m,
       regionName = Buying_Region m \<rparr>"

text \<open>
  The effective capacity of the specification: the slots of the profile times their size,
  plus the allowance of the home storage, by the type label of the item.
\<close>

definition effective_capacity :: "vehicle \<Rightarrow> string \<Rightarrow> int" where
  "effective_capacity v label =
     (if label = ''Item''
      then item_slots v * item_slot_size v
             + item_slots player_capacity * item_slot_size player_capacity
      else if label = ''Cargo''
      then cargo_slots v * cargo_slot_size v
             + cargo_slots player_capacity * cargo_slot_size player_capacity
      else 0)"

text \<open>
  The counterparty count of the specification: the distinct locations, other than the
  home claim, on either side of the trades of a table.
\<close>

definition distinct_counterparties :: "string \<Rightarrow> ranked list \<Rightarrow> nat" where
  "distinct_counterparties claim_id full_df =
     length (remdups (filter (\<lambda>c. c \<noteq> claim_id)
       (map buyClaimEntityId full_df @ map sellClaimEntityId full_df)))"

subsection \<open>A market to run the pipeline on\<close>

text \<open>
  The claim of interest is Port, with id 100. Planks are sold there in two orders at the
  same price; Mill, Quarry and Port itself buy planks.
\<close>

definition home_id :: string where
  "home_id = ''100''"

definition plank :: item where
  "plank = \<lparr> item_name = ''Plank'', item_type = 0, item_id = 7, item_volume = 5 \<rparr>"

definition plank_sells :: "raw_order list" where
  "plank_sells =
     [ \<lparr> raw_order.itemId = 7, itemType = 0, priceThreshold = 10, quantity = 60,
         claimEntityId = ''100'', claimName = ''Port'', regionName = ''North'' \<rparr>,
       \<lparr> raw_order.itemId = 7, itemType = 0, priceThreshold = 10, quantity = 40,
         claimEntityId = ''100'', claimName = ''Port'', regionName = ''North'' \<rparr> ]"

definition plank_buys :: "raw_order list" where
  "plank_buys =
     [ \<lparr> raw_order.itemId = 7, itemType = 0, priceThreshold = 15, quantity = 50,
         claimEntityId = ''200'', claimName = ''Mill'', regionName = ''South'' \<rparr>,
       \<lparr> raw_order.itemId = 7, itemType = 0, priceThreshold = 20, quantity = 10,
         claimEntityId = ''300'', claimName = ''Quarry'', regionName = ''South'' \<rparr>,
       \<lparr> raw_order.itemId = 7, itemType = 0, priceThreshold = 12, quantity = 5,
         claimEntityId = ''100'', claimName = ''Port'', regionName = ''North'' \<rparr>,
       \<lparr> raw_order.itemId = 7, itemType = 0, priceThreshold = 9, quantity = 5,
         claimEntityId = ''200'', claimName = ''Mill'', regionName = ''South'' \<rparr> ]"

definition market_request :: "string \<Rightarrow> int \<Rightarrow> item_market option" where
  "market_request type_str i =
     (if type_str = ''item'' \<and> i = 7
      then Some \<lparr> buyOrders = plank_buys, sellOrders = plank_sells \<rparr>
      else None)"


text \<open>The trades this market yields for Port.\<close>

definition plank_trades :: "trade list" where
  "plank_trades =
     [ \<lparr> itemName = ''Plank'', itemTypeStr = ''Item'', itemId = 7, itemType = 0,
         itemVolume = 5, Selling_Price = 10, Selling_Quantity = 100,
         sellClaimEntityId = ''100'', Selling_Claim = ''Port'', Selling_Region = ''North'',
         Buying_Price = 12, Buying_Quantity = 5,
         buyClaimEntityId = ''100'', Buying_Claim = ''Port'', Buying_Region = ''North'',
         Trade_Quantity = 5, Unit_Profit = 2 \<rparr>,
       \<lparr> itemName = ''Plank'', itemTypeStr = ''Item'', itemId = 7, itemType = 0,
         itemVolume = 5, Selling_Price = 10, Selling_Quantity = 100,
         sellClaimEntityId = ''100'', Selling_Claim = ''Port'', Selling_Region = ''North'',
         Buying_Price = 15, Buying_Quantity = 50,
         buyClaimEntityId = ''200'', Buying_Claim = ''Mill'', Buying_Region = ''South'',
         Trade_Quantity = 50, Unit_Profit = 5 \<rparr>,
       \<lparr> itemName = ''Plank'', itemTypeStr = ''Item'', itemId = 7, itemType = 0,
         itemVolume = 5, Selling_Price = 10, Selling_Quantity = 100,
         sellClaimEntityId = ''100'', Selling_Claim = ''Port'', Selling_Region = ''North'',
         Buying_Price = 20, Buying_Quantity = 10,
         buyClaimEntityId = ''300'', Buying_Claim = ''Quarry'', Buying_Region = ''South'',
         Trade_Quantity = 10, Unit_Profit = 10 \<rparr> ]"

text \<open>
  Port lies at the origin and Mill at (3, 4); the request for Quarry raises.
\<close>

definition claim_request :: "string \<Rightarrow> claim option" where
  "claim_request c =
     (if c = ''100'' then Some \<lparr> claim_X = 0, claim_Z = 0 \<rparr>
      else if c = ''200'' then Some \<lparr> claim_X = 3, claim_Z = 4 \<rparr>
      else None)"


text \<open>A trade of a cargo too bulky for the whole trade quantity to fit on any vehicle.\<close>

definition stone_row :: ranked where
  "stone_row =
     trade.extend
       \<lparr> itemName = ''Stone'', itemTypeStr = ''Cargo'', itemId = 9, itemType = 1,
         itemVolume = 7000, Selling_Price = 4, Selling_Quantity = 500,
         sellClaimEntityId = ''100'', Selling_Claim = ''Port'', Selling_Region = ''North'',
         Buying_Price = 7, Buying_Quantity = 800,
         buyClaimEntityId = ''200'', Buying_Claim = ''Mill'', Buying_Region = ''South'',
         Trade_Quantity = 500, Unit_Profit = 3 \<rparr>
       (ranked.fields (Fin 10) [])"


text \<open>
  The ranked table of the plank market. Every vehicle has room for the whole trade
  quantity, so the four triples of columns of a row are equal.
\<close>

definition all_vehicles :: "vehicle_cols \<Rightarrow> (string \<times> vehicle_cols) list" where
  "all_vehicles c = map (\<lambda>name. (name, c)) [''Raft'', ''Skiff'', ''Clipper'', ''Cargo Ship'']"

definition plank_ranked :: "ranked list" where
  "plank_ranked =
     [ trade.extend (plank_trades ! 0)
         (ranked.fields (Fin 0)
            (all_vehicles \<lparr> Quantity = 5, Profit = 10, Profit_per_1k_Dist = PInf \<rparr>)),
       trade.extend (plank_trades ! 1)
         (ranked.fields (Fin 1.67)
            (all_vehicles \<lparr> Quantity = 50, Profit = 250, Profit_per_1k_Dist = Fin 149700.6 \<rparr>)),
       trade.extend (plank_trades ! 2)
         (ranked.fields PInf
            (all_vehicles \<lparr> Quantity = 10, Profit = 100, Profit_per_1k_Dist = Fin 0 \<rparr>)) ]"

text \<open>
  A trade of three units whose unit profit is \<open>2 ^ 62\<close>, a value of the 64-bit column.
\<close>

definition gem_row :: ranked where
  "gem_row =
     trade.extend
       \<lparr> itemName = ''Gem'', itemTypeStr = ''Item'', itemId = 11, itemType = 0,
         itemVolume = 1, Selling_Price = 0, Selling_Quantity = 3,
         sellClaimEntityId = ''100'', Selling_Claim = ''Port'', Selling_Region = ''North'',
         Buying_Price = 4611686018427387904, Buying_Quantity = 3,
         buyClaimEntityId = ''200'', Buying_Claim = ''Mill'', Buying_Region = ''South'',
         Trade_Quantity = 3, Unit_Profit = 4611686018427387904 \<rparr>
       (ranked.fields (Fin 10) [])"

subsection \<open>A market where the claim of interest buys\<close>

text \<open>
  Quarry sells rope and Port buys it. The request for Quarry raises, as above.
\<close>

definition rope :: item where
  "rope = \<lparr> item_name = ''Rope'', item_type = 0, item_id = 8, item_volume = 5 \<rparr>"

definition rope_request :: "string \<Rightarrow> int \<Rightarrow> item_market option" where
  "rope_request type_str i =
     (if type_str = ''item'' \<and> i = 8
      then Some
        \<lparr> buyOrders =
            [ \<lparr> raw_order.itemId = 8, itemType = 0, priceThreshold = 12, quantity = 5,
                claimEntityId = ''100'', claimName = ''Port'', regionName = ''North'' \<rparr> ],
          sellOrders =
            [ \<lparr> raw_order.itemId = 8, itemType = 0, priceThreshold = 8, quantity = 20,
                claimEntityId = ''300'', claimName = ''Quarry'', regionName = ''South'' \<rparr> ] \<rparr>
      else None)"

definition rope_trades :: "trade list" where
  "rope_trades =
     [ \<lparr> itemName = ''Rope'', itemTypeStr = ''Item'', itemId = 8, itemType = 0,
         itemVolume = 5, Selling_Price = 8, Selling_Quantity = 20,
         sellClaimEntityId = ''300'', Selling_Claim = ''Quarry'', Selling_Region = ''South'',
         Buying_Price = 12, Buying_Quantity = 5,
         buyClaimEntityId = ''100'', Buying_Claim = ''Port'', Buying_Region = ''North'',
         Trade_Quantity = 5, Unit_Profit = 4 \<rparr> ]"

definition rope_ranked :: "ranked list" where
  "rope_ranked =
     [ trade.extend (rope_trades ! 0)
         (ranked.fields PInf
            (all_vehicles \<lparr> Quantity = 5, Profit = 20, Profit_per_1k_Dist = Fin 0 \<rparr>)) ]"

section \<open>Verification\<close>

subsection \<open>The normalizer\<close>

lemma by_cols_group_row: "by_cols (group_row k q) = k"
  by (auto simp: by_cols_def group_row_def split: prod.splits)


lemma map_by_cols_groupby_sum:
  "map by_cols (groupby_sum rows) = sort (remdups (map by_cols rows))"
  by (simp add: groupby_sum_def o_def by_cols_group_row)

lemma set_by_cols_groupby_sum: "by_cols ` set (groupby_sum rows) = by_cols ` set rows"
proof -
  have "set (map by_cols (groupby_sum rows)) = set (map by_cols rows)"
    by (simp only: map_by_cols_groupby_sum set_sort set_remdups)
  then show ?thesis by simp
qed


lemma groupby_sum_origin:
  assumes "r \<in> set (groupby_sum rows)"
  shows "\<exists>r0 \<in> set rows. by_cols r = by_cols r0"
proof -
  from assms have "by_cols r \<in> by_cols ` set (groupby_sum rows)" by (rule imageI)
  then show ?thesis unfolding set_by_cols_groupby_sum by auto
qed


lemma int64_in_range: "- (2 ^ 63) \<le> x \<Longrightarrow> x < 2 ^ 63 \<Longrightarrow> int64 x = x"
  by (simp add: int64_def)

lemma normalize_pool_origin:
  assumes "r \<in> set (normalize_pool it ts orders)"
  shows "\<exists>ord \<in> set orders. by_cols r = by_cols (add_fields it ts ord)"
  using groupby_sum_origin [OF assms [unfolded normalize_pool_def]] by auto

lemma normalize_pool_item_cols:
  assumes "r \<in> set (normalize_pool it ts orders)"
  shows "itemName r = item_name it \<and> itemTypeStr r = capitalize ts \<and> itemVolume r = item_volume it"
proof -
  from normalize_pool_origin [OF assms] obtain ord where
    "by_cols r = by_cols (add_fields it ts ord)" by blast
  then show ?thesis by (simp add: by_cols_def add_fields_def)
qed





lemma normalize_plank_sells:
  "normalize_pool plank ''item'' plank_sells =
     [ \<lparr> itemName = ''Plank'', itemTypeStr = ''Item'', itemId = 7, itemType = 0,
         itemVolume = 5, priceThreshold = 10, quantity = 100,
         claimEntityId = ''100'', claimName = ''Port'', regionName = ''North'' \<rparr> ]"
  by code_simp


subsection \<open>The matcher\<close>

lemma profitability_cols:
  "Trade_Quantity (profitability m) = min (Buying_Quantity m) (Selling_Quantity m)"
  "Unit_Profit (profitability m) = Buying_Price m - Selling_Price m"
  "Buying_Price (profitability m) = Buying_Price m"
  "Selling_Price (profitability m) = Selling_Price m"
  "Buying_Quantity (profitability m) = Buying_Quantity m"
  "Selling_Quantity (profitability m) = Selling_Quantity m"
  "buyClaimEntityId (profitability m) = buyClaimEntityId m"
  "sellClaimEntityId (profitability m) = sellClaimEntityId m"
  by (simp_all add: profitability_def merged.defs trade.defs)

lemma match_orders_origin:
  assumes "t \<in> set (match_orders claim_id all_sells all_buys)"
  shows "\<exists>m \<in> set (pd_merge all_sells all_buys).
           touches_claim claim_id m \<and> t = profitability m \<and> 0 < Unit_Profit t"
  using assms by (auto simp: match_orders_def)

lemma process_item_origin:
  assumes "t \<in> set (process_item request claim_id it)"
  shows "\<exists>type_str item_market.
           item_type_str (item_type it) = Some type_str \<and>
           request type_str (item_id it) = Some item_market \<and>
           t \<in> set (match_orders claim_id
                      (normalize_pool it type_str (sellOrders item_market))
                      (normalize_pool it type_str (buyOrders item_market)))"
proof (cases "item_type_str (item_type it)")
  case None
  with assms show ?thesis by (simp add: process_item_def)
next
  case (Some type_str)
  note ts = this
  show ?thesis
  proof (cases "request type_str (item_id it)")
    case None
    with assms ts show ?thesis by (simp add: process_item_def)
  next
    case (Some item_market)
    with assms ts show ?thesis
      by (simp add: process_item_def split: if_splits)
  qed
qed

lemma collect_trades_origin:
  assumes "t \<in> set (collect_trades request claim_id item_list)"
  shows "\<exists>all_sells all_buys. t \<in> set (match_orders claim_id all_sells all_buys)"
proof -
  from assms obtain it where "t \<in> set (process_item request claim_id it)"
    by (auto simp: collect_trades_def)
  from process_item_origin [OF this] show ?thesis by blast
qed

lemma collect_plank_trades: "collect_trades market_request home_id [plank] = plank_trades"
  by code_simp


lemma normalize_pool_item_ref:
  assumes "r \<in> set (normalize_pool it ts orders)"
  shows "\<exists>ord \<in> set orders.
           itemId r = raw_order.itemId ord \<and> itemType r = raw_order.itemType ord"
proof -
  from normalize_pool_origin [OF assms] obtain ord where
    "ord \<in> set orders" "by_cols r = by_cols (add_fields it ts ord)" by blast
  then show ?thesis by (auto simp: by_cols_def add_fields_def)
qed

lemma profitability_dropped:
  assumes "\<not> touches_claim claim_id m \<or> Buying_Price m - Selling_Price m \<le> 0"
  shows "profitability m \<notin> set (match_orders claim_id all_sells all_buys)"
proof
  assume "profitability m \<in> set (match_orders claim_id all_sells all_buys)"
  from match_orders_origin [OF this] obtain m' where
    m': "touches_claim claim_id m'" "profitability m = profitability m'"
    and pos: "0 < Unit_Profit (profitability m)" by blast
  from m'(2) have "sellClaimEntityId (profitability m) = sellClaimEntityId (profitability m')"
    "buyClaimEntityId (profitability m) = buyClaimEntityId (profitability m')" by simp_all
  with m'(1) have "touches_claim claim_id m"
    by (simp add: touches_claim_def profitability_cols)
  with assms pos show False by (simp add: profitability_cols)
qed

text \<open>
  Claim C6. Every trade the matcher emits has its unit profit equal to the buying price
  minus the selling price, and its buying price strictly above its selling price; a merged
  pair whose difference of prices is not positive is not among the trades.
\<close>

theorem trade_profit_positive:
  "(\<forall>t \<in> set (collect_trades request claim_id item_list).
      Unit_Profit t = Buying_Price t - Selling_Price t \<and> Selling_Price t < Buying_Price t)
   \<and> (\<forall>m. Buying_Price m - Selling_Price m \<le> 0 \<longrightarrow>
          profitability m \<notin> set (match_orders claim_id all_sells all_buys))"
proof (intro conjI ballI allI impI)
  fix t assume "t \<in> set (collect_trades request claim_id item_list)"
  from collect_trades_origin [OF this] obtain all_sells all_buys
    where "t \<in> set (match_orders claim_id all_sells all_buys)" by blast
  from match_orders_origin [OF this] obtain m
    where t: "t = profitability m" and pos: "0 < Unit_Profit t" by blast
  from t show "Unit_Profit t = Buying_Price t - Selling_Price t"
    by (simp add: profitability_cols)
  with pos show "Selling_Price t < Buying_Price t" by simp
next
  fix m :: merged assume "Buying_Price m - Selling_Price m \<le> 0"
  then show "profitability m \<notin> set (match_orders claim_id all_sells all_buys)"
    by (simp add: profitability_dropped)
qed

theorem trade_profit_positive_witness:
  "plank_trades ! 1 \<in> set (collect_trades market_request home_id [plank])
   \<and> Unit_Profit (plank_trades ! 1) = 5
   \<and> Selling_Price (plank_trades ! 1) < Buying_Price (plank_trades ! 1)"
proof -
  have m: "plank_trades ! 1 \<in> set (collect_trades market_request home_id [plank])"
    by (simp add: collect_plank_trades) (simp add: plank_trades_def)
  from trade_profit_positive [of market_request home_id "[plank]", THEN conjunct1, rule_format, OF m] m
  show ?thesis by (simp add: plank_trades_def)
qed

text \<open>
  Claim C7. Every trade the matcher emits has the claim of interest on its selling side or
  on its buying side; a merged pair with the claim on neither side is not among the trades.
\<close>

theorem trade_touches_claim:
  "(\<forall>t \<in> set (collect_trades request claim_id item_list).
      sellClaimEntityId t = claim_id \<or> buyClaimEntityId t = claim_id)
   \<and> (\<forall>m. sellClaimEntityId m \<noteq> claim_id \<and> buyClaimEntityId m \<noteq> claim_id \<longrightarrow>
          profitability m \<notin> set (match_orders claim_id all_sells all_buys))"
proof (intro conjI ballI allI impI)
  fix t assume "t \<in> set (collect_trades request claim_id item_list)"
  from collect_trades_origin [OF this] obtain all_sells all_buys
    where "t \<in> set (match_orders claim_id all_sells all_buys)" by blast
  from match_orders_origin [OF this] obtain m
    where "touches_claim claim_id m" and "t = profitability m" by blast
  then show "sellClaimEntityId t = claim_id \<or> buyClaimEntityId t = claim_id"
    by (simp add: touches_claim_def profitability_cols)
next
  fix m :: merged
  assume "sellClaimEntityId m \<noteq> claim_id \<and> buyClaimEntityId m \<noteq> claim_id"
  then show "profitability m \<notin> set (match_orders claim_id all_sells all_buys)"
    by (simp add: profitability_dropped touches_claim_def)
qed

theorem trade_touches_claim_witness:
  "plank_trades ! 2 \<in> set (collect_trades market_request home_id [plank])
   \<and> sellClaimEntityId (plank_trades ! 2) = home_id
   \<and> buyClaimEntityId (plank_trades ! 2) = ''300''"
proof -
  have m: "plank_trades ! 2 \<in> set (collect_trades market_request home_id [plank])"
    by (simp add: collect_plank_trades) (simp add: plank_trades_def)
  from trade_touches_claim [of market_request home_id "[plank]", THEN conjunct1, rule_format, OF m] m
  show ?thesis by (simp add: plank_trades_def home_id_def)
qed

lemma sell_record_merge_row: "sell_record (merge_row s b) = s"
  by (simp add: sell_record_def merge_row_def)

lemma buy_record_merge_row:
  "join_columns s = join_columns b \<Longrightarrow> buy_record (merge_row s b) = b"
  by (simp add: buy_record_def merge_row_def join_columns_def)

lemma records_profitability:
  "sell_record (profitability m) = sell_record m"
  "buy_record (profitability m) = buy_record m"
  by (simp_all add: sell_record_def buy_record_def profitability_def merged.defs trade.defs)

lemma quantity_records:
  "quantity (sell_record m) = Selling_Quantity m"
  "quantity (buy_record m) = Buying_Quantity m"
  "claimEntityId (sell_record m) = sellClaimEntityId m"
  "claimEntityId (buy_record m) = buyClaimEntityId m"
  "priceThreshold (sell_record m) = Selling_Price m"
  "priceThreshold (buy_record m) = Buying_Price m"
  by (simp_all add: sell_record_def buy_record_def)

lemma pd_merge_records:
  "map (\<lambda>m. (sell_record m, buy_record m)) (pd_merge all_sells all_buys) =
     concat (map (\<lambda>s. map (Pair s) (filter (\<lambda>b. join_columns s = join_columns b) all_buys))
                 all_sells)"
proof -
  have "map (\<lambda>m. (sell_record m, buy_record m))
          (map (merge_row s) (filter (\<lambda>b. join_columns s = join_columns b) all_buys)) =
        map (Pair s) (filter (\<lambda>b. join_columns s = join_columns b) all_buys)" for s
    by (simp add: sell_record_merge_row buy_record_merge_row cong: map_cong)
  then have "map (map (\<lambda>m. (sell_record m, buy_record m)))
          (map (\<lambda>s. map (merge_row s)
                  (filter (\<lambda>b. join_columns s = join_columns b) all_buys)) all_sells) =
        map (\<lambda>s. map (Pair s) (filter (\<lambda>b. join_columns s = join_columns b) all_buys))
          all_sells"
    by (simp only: map_map o_def)
  then show ?thesis
    unfolding pd_merge_def by (simp only: map_concat)
qed

lemma pd_merge_member:
  "m \<in> set (pd_merge all_sells all_buys) \<longleftrightarrow>
     (\<exists>s \<in> set all_sells. \<exists>b \<in> set all_buys.
        join_columns s = join_columns b \<and> m = merge_row s b)"
  unfolding pd_merge_def by auto

lemma match_orders_member:
  "t \<in> set (match_orders claim_id all_sells all_buys) \<longleftrightarrow>
     (\<exists>m \<in> set (pd_merge all_sells all_buys).
        touches_claim claim_id m \<and> 0 < Buying_Price m - Selling_Price m \<and>
        t = profitability m)"
  unfolding match_orders_def by (auto simp: profitability_cols)

text \<open>
  Claim C2. On the normalized pools of one item the merge is the join on item id, type
  code and volume, and no price is compared: the pairs of a sell record and a buy record
  that its rows hold are the pairs with the same key, each once, in the order of the
  pools. When the orders are those of the item, these are all pairs of a sell record and a
  buy record. Every trade the matcher emits holds a record of the sell pool and a record
  of the buy pool, and its trade quantity is the smaller of the quantities of the two; and
  every pair of records with the same key that touches the claim of interest and buys
  above the selling price is emitted as such a trade.
\<close>

theorem merge_pairs_every_sell_with_every_buy:
  fixes it type_str sells buys claim_id
  defines "all_sells \<equiv> normalize_pool it type_str sells"
    and "all_buys \<equiv> normalize_pool it type_str buys"
  shows "map (\<lambda>m. (sell_record m, buy_record m)) (pd_merge all_sells all_buys) =
           concat (map (\<lambda>s. map (Pair s) (filter (\<lambda>b. item_key s = item_key b) all_buys))
                       all_sells)
       \<and> ((\<forall>ord \<in> set sells \<union> set buys.
              raw_order.itemId ord = item_id it \<and> raw_order.itemType ord = item_type it)
            \<longrightarrow> map (\<lambda>m. (sell_record m, buy_record m)) (pd_merge all_sells all_buys) =
                  concat (map (\<lambda>s. map (Pair s) all_buys) all_sells))
       \<and> (\<forall>t \<in> set (match_orders claim_id all_sells all_buys).
            sell_record t \<in> set all_sells \<and> buy_record t \<in> set all_buys
            \<and> item_key (sell_record t) = item_key (buy_record t)
            \<and> Trade_Quantity t = min (quantity (buy_record t)) (quantity (sell_record t)))
       \<and> (\<forall>s \<in> set all_sells. \<forall>b \<in> set all_buys.
            item_key s = item_key b
            \<and> (claimEntityId s = claim_id \<or> claimEntityId b = claim_id)
            \<and> priceThreshold s < priceThreshold b
            \<longrightarrow> (\<exists>t \<in> set (match_orders claim_id all_sells all_buys).
                   sell_record t = s \<and> buy_record t = b
                   \<and> Trade_Quantity t = min (quantity b) (quantity s)))"
proof -
  have key: "join_columns s = join_columns b \<longleftrightarrow> item_key s = item_key b"
    if "s \<in> set all_sells" "b \<in> set all_buys" for s b
    using normalize_pool_item_cols [of s it type_str sells]
      normalize_pool_item_cols [of b it type_str buys] that
    by (simp add: all_sells_def all_buys_def join_columns_def item_key_def)
  have "map (Pair s) (filter (\<lambda>b. join_columns s = join_columns b) all_buys) =
        map (Pair s) (filter (\<lambda>b. item_key s = item_key b) all_buys)"
    if "s \<in> set all_sells" for s
    using key [OF that] by (simp cong: filter_cong)
  then have 1: "map (\<lambda>m. (sell_record m, buy_record m)) (pd_merge all_sells all_buys) =
           concat (map (\<lambda>s. map (Pair s) (filter (\<lambda>b. item_key s = item_key b) all_buys))
                       all_sells)"
    unfolding pd_merge_records by (simp cong: map_cong)
  have 2: "map (\<lambda>m. (sell_record m, buy_record m)) (pd_merge all_sells all_buys) =
                  concat (map (\<lambda>s. map (Pair s) all_buys) all_sells)"
    if same: "\<forall>ord \<in> set sells \<union> set buys.
              raw_order.itemId ord = item_id it \<and> raw_order.itemType ord = item_type it"
  proof -
    have all: "item_key s = item_key b"
      if s: "s \<in> set all_sells" and b: "b \<in> set all_buys" for s b
    proof -
      from s obtain so where "so \<in> set sells" "itemId s = raw_order.itemId so"
        "itemType s = raw_order.itemType so"
        unfolding all_sells_def using normalize_pool_item_ref by blast
      moreover from b obtain bo where "bo \<in> set buys" "itemId b = raw_order.itemId bo"
        "itemType b = raw_order.itemType bo"
        unfolding all_buys_def using normalize_pool_item_ref by blast
      ultimately have "itemId s = itemId b" "itemType s = itemType b"
        using same by simp_all
      with normalize_pool_item_cols [of s it type_str sells]
        normalize_pool_item_cols [of b it type_str buys] s b
      show ?thesis by (simp add: all_sells_def all_buys_def item_key_def)
    qed
    have "filter (\<lambda>b. item_key s = item_key b) all_buys = all_buys"
      if "s \<in> set all_sells" for s
      using all [OF that] by (simp cong: filter_cong)
    then show ?thesis
      unfolding 1 by (simp cong: map_cong)
  qed
  have 3: "sell_record t \<in> set all_sells \<and> buy_record t \<in> set all_buys
            \<and> item_key (sell_record t) = item_key (buy_record t)
            \<and> Trade_Quantity t = min (quantity (buy_record t)) (quantity (sell_record t))"
    if "t \<in> set (match_orders claim_id all_sells all_buys)" for t
  proof -
    from that obtain m where m: "m \<in> set (pd_merge all_sells all_buys)"
      and t: "t = profitability m"
      unfolding match_orders_member by blast
    from m obtain s b where sb: "s \<in> set all_sells" "b \<in> set all_buys"
      "join_columns s = join_columns b" "m = merge_row s b"
      unfolding pd_merge_member by blast
    from sb(3,4) t have rec: "sell_record t = s" "buy_record t = b"
      by (simp_all add: records_profitability sell_record_merge_row buy_record_merge_row)
    have "Trade_Quantity t = min (Buying_Quantity m) (Selling_Quantity m)"
      unfolding t by (rule profitability_cols)
    also have "\<dots> = min (quantity b) (quantity s)"
      unfolding sb(4) by (simp add: merge_row_def)
    finally show ?thesis
      using sb(1,2) key [OF sb(1,2)] sb(3) unfolding rec by simp
  qed
  have 4: "\<exists>t \<in> set (match_orders claim_id all_sells all_buys).
                   sell_record t = s \<and> buy_record t = b
                   \<and> Trade_Quantity t = min (quantity b) (quantity s)"
    if s: "s \<in> set all_sells" and b: "b \<in> set all_buys"
      and k: "item_key s = item_key b"
      and c: "claimEntityId s = claim_id \<or> claimEntityId b = claim_id"
      and p: "priceThreshold s < priceThreshold b" for s b
  proof -
    from k key [OF s b] have j: "join_columns s = join_columns b" by simp
    with s b have m: "merge_row s b \<in> set (pd_merge all_sells all_buys)"
      unfolding pd_merge_member by blast
    from c have tc: "touches_claim claim_id (merge_row s b)"
      by (simp add: touches_claim_def merge_row_def)
    from p have pos: "0 < Buying_Price (merge_row s b) - Selling_Price (merge_row s b)"
      by (simp add: merge_row_def)
    from m tc pos
    have "profitability (merge_row s b) \<in> set (match_orders claim_id all_sells all_buys)"
      unfolding match_orders_member by blast
    moreover from j have "sell_record (profitability (merge_row s b)) = s"
      "buy_record (profitability (merge_row s b)) = b"
      by (simp_all add: records_profitability sell_record_merge_row buy_record_merge_row)
    moreover have "Trade_Quantity (profitability (merge_row s b)) = min (quantity b) (quantity s)"
      by (simp add: profitability_cols merge_row_def)
    ultimately show ?thesis by blast
  qed
  from 1 2 3 4 show ?thesis by blast
qed

lemma normalize_plank_buys:
  "normalize_pool plank ''item'' plank_buys =
     [ \<lparr> itemName = ''Plank'', itemTypeStr = ''Item'', itemId = 7, itemType = 0,
         itemVolume = 5, priceThreshold = 9, quantity = 5,
         claimEntityId = ''200'', claimName = ''Mill'', regionName = ''South'' \<rparr>,
       \<lparr> itemName = ''Plank'', itemTypeStr = ''Item'', itemId = 7, itemType = 0,
         itemVolume = 5, priceThreshold = 12, quantity = 5,
         claimEntityId = ''100'', claimName = ''Port'', regionName = ''North'' \<rparr>,
       \<lparr> itemName = ''Plank'', itemTypeStr = ''Item'', itemId = 7, itemType = 0,
         itemVolume = 5, priceThreshold = 15, quantity = 50,
         claimEntityId = ''200'', claimName = ''Mill'', regionName = ''South'' \<rparr>,
       \<lparr> itemName = ''Plank'', itemTypeStr = ''Item'', itemId = 7, itemType = 0,
         itemVolume = 5, priceThreshold = 20, quantity = 10,
         claimEntityId = ''300'', claimName = ''Quarry'', regionName = ''South'' \<rparr> ]"
  by code_simp

lemma match_plank_orders:
  "match_orders home_id (normalize_pool plank ''item'' plank_sells)
                        (normalize_pool plank ''item'' plank_buys) = plank_trades"
  by code_simp

text \<open>
  The plank market: one sell record of 100 planks is paired with each of the four buy
  records; the three pairs that buy above the selling price trade 5, 50 and 10 planks.
\<close>

theorem merge_pairs_every_sell_with_every_buy_witness:
  "map (\<lambda>m. (quantity (sell_record m), priceThreshold (buy_record m), quantity (buy_record m)))
     (pd_merge (normalize_pool plank ''item'' plank_sells)
               (normalize_pool plank ''item'' plank_buys))
   = [(100, 9, 5), (100, 12, 5), (100, 15, 50), (100, 20, 10)]
   \<and> map (\<lambda>t. (quantity (sell_record t), quantity (buy_record t), Trade_Quantity t))
       (match_orders home_id (normalize_pool plank ''item'' plank_sells)
                             (normalize_pool plank ''item'' plank_buys))
   = [(100, 5, 5), (100, 50, 50), (100, 10, 10)]
   \<and> (\<exists>t \<in> set (match_orders home_id (normalize_pool plank ''item'' plank_sells)
                                       (normalize_pool plank ''item'' plank_buys)).
        claimName (sell_record t) = ''Port'' \<and> claimName (buy_record t) = ''Quarry''
        \<and> Trade_Quantity t = 10)"
proof -
  let ?S = "normalize_pool plank ''item'' plank_sells"
  let ?B = "normalize_pool plank ''item'' plank_buys"
  note inst = merge_pairs_every_sell_with_every_buy
    [of plank "''item''" plank_sells plank_buys home_id]
  have "\<forall>ord \<in> set plank_sells \<union> set plank_buys.
          raw_order.itemId ord = item_id plank \<and> raw_order.itemType ord = item_type plank"
    by (simp add: plank_sells_def plank_buys_def plank_def)
  with inst have pairs: "map (\<lambda>m. (sell_record m, buy_record m)) (pd_merge ?S ?B) =
      concat (map (\<lambda>s. map (Pair s) ?B) ?S)"
    by blast
  have "map (\<lambda>m. (quantity (sell_record m), priceThreshold (buy_record m),
                   quantity (buy_record m))) (pd_merge ?S ?B) =
        map (\<lambda>p. (quantity (fst p), priceThreshold (snd p), quantity (snd p)))
          (map (\<lambda>m. (sell_record m, buy_record m)) (pd_merge ?S ?B))"
    by (simp add: o_def)
  also have "\<dots> = [(100, 9, 5), (100, 12, 5), (100, 15, 50), (100, 20, 10)]"
    unfolding pairs by (simp add: normalize_plank_sells normalize_plank_buys)
  finally have a: "map (\<lambda>m. (quantity (sell_record m), priceThreshold (buy_record m),
                   quantity (buy_record m))) (pd_merge ?S ?B) =
        [(100, 9, 5), (100, 12, 5), (100, 15, 50), (100, 20, 10)]" .
  have b: "map (\<lambda>t. (quantity (sell_record t), quantity (buy_record t), Trade_Quantity t))
       (match_orders home_id ?S ?B) = [(100, 5, 5), (100, 50, 50), (100, 10, 10)]"
    unfolding match_plank_orders
    by (simp add: plank_trades_def sell_record_def buy_record_def)
  have s: "hd ?S \<in> set ?S" and q: "last ?B \<in> set ?B"
    by (simp_all add: normalize_plank_sells normalize_plank_buys)
  have "item_key (hd ?S) = item_key (last ?B)
      \<and> (claimEntityId (hd ?S) = home_id \<or> claimEntityId (last ?B) = home_id)
      \<and> priceThreshold (hd ?S) < priceThreshold (last ?B)"
    by (simp add: normalize_plank_sells normalize_plank_buys item_key_def home_id_def)
  with inst s q have "\<exists>t \<in> set (match_orders home_id ?S ?B).
      sell_record t = hd ?S \<and> buy_record t = last ?B
      \<and> Trade_Quantity t = min (quantity (last ?B)) (quantity (hd ?S))"
    by blast
  then obtain t where t: "t \<in> set (match_orders home_id ?S ?B)"
    "sell_record t = hd ?S" "buy_record t = last ?B"
    "Trade_Quantity t = min (quantity (last ?B)) (quantity (hd ?S))"
    by blast
  have "claimName (sell_record t) = ''Port''"
    unfolding t(2) by (simp add: normalize_plank_sells)
  moreover have "claimName (buy_record t) = ''Quarry''"
    unfolding t(3) by (simp add: normalize_plank_buys)
  moreover have "Trade_Quantity t = 10"
    unfolding t(4) by (simp add: normalize_plank_sells normalize_plank_buys)
  ultimately have c: "\<exists>t \<in> set (match_orders home_id ?S ?B).
        claimName (sell_record t) = ''Port'' \<and> claimName (buy_record t) = ''Quarry''
        \<and> Trade_Quantity t = 10"
    using t(1) by blast
  from a b c show ?thesis by blast
qed

subsection \<open>The distance resolver\<close>

lemma rint_near: "\<bar>of_int (rint x) - x\<bar> \<le> 1 / 2"
proof -
  have "of_int \<lfloor>x\<rfloor> \<le> x" "x < of_int \<lfloor>x\<rfloor> + 1" by linarith+
  then show ?thesis by (auto simp: rint_def Let_def)
qed

lemma rint_nonneg: "0 \<le> x \<Longrightarrow> 0 \<le> rint x"
proof -
  assume "0 \<le> x"
  then have "0 \<le> \<lfloor>x\<rfloor>" by simp
  then show ?thesis by (auto simp: rint_def Let_def)
qed

lemma round2_near: "\<bar>round2 x - x\<bar> \<le> 1 / 200"
proof -
  have "round2 x - x = (of_int (rint (x * 100)) - x * 100) / 100"
    by (simp add: round2_def diff_divide_distrib)
  then have "\<bar>round2 x - x\<bar> = \<bar>of_int (rint (x * 100)) - x * 100\<bar> / 100"
    by (simp only: abs_divide)
  with rint_near [of "x * 100"] show ?thesis by simp
qed

lemma round2_nonneg: "0 \<le> x \<Longrightarrow> 0 \<le> round2 x"
  using rint_nonneg [of "x * 100"] by (simp add: round2_def)

lemma round2_hundredths: "\<exists>k::int. round2 x = of_int k / 100"
  unfolding round2_def by blast

lemma dist_nonneg: "0 \<le> dist_claim X0 Z0 c"
  unfolding dist_claim_def by (rule round2_nonneg) simp

lemma foldl_resolve_claim:
  "foldl (resolve_claim request X0 Z0) m claims c =
     (if c \<in> set claims
      then (case request c of None \<Rightarrow> m c | Some cl \<Rightarrow> Some (dist_claim X0 Z0 cl))
      else m c)"
proof (induction claims arbitrary: m)
  case Nil
  show ?case by simp
next
  case (Cons a claims)
  show ?case
    by (simp add: Cons.IH) (auto simp: resolve_claim_def split: option.splits)
qed

lemma resolve_distances_lookup:
  "resolve_distances request X0 Z0 claims c =
     (if c \<in> set claims then map_option (dist_claim X0 Z0) (request c) else None)"
  unfolding resolve_distances_def foldl_resolve_claim
  by (simp split: option.splits)

lemma resolve_distances_nonneg:
  "resolve_distances request X0 Z0 claims c = Some d \<Longrightarrow> 0 \<le> d"
  by (auto simp: resolve_distances_lookup dist_nonneg split: if_splits)

text \<open>
  Claim C8. A claim of the list whose request succeeds is mapped to the value of line 221
  at its coordinates. That value is not negative, is a whole number of hundredths, and is
  within half a hundredth of the Euclidean distance to the home coordinates divided by 3.
\<close>

theorem resolved_distance:
  assumes "c \<in> set claims" and "request c = Some cl"
  shows "\<exists>d. resolve_distances request X0 Z0 claims c = Some d
           \<and> d = round2 (sqrt ((X0 - claim_X cl)\<^sup>2 + (Z0 - claim_Z cl)\<^sup>2) / 3)
           \<and> 0 \<le> d
           \<and> (\<exists>k::int. d = of_int k / 100)
           \<and> \<bar>d - sqrt ((X0 - claim_X cl)\<^sup>2 + (Z0 - claim_Z cl)\<^sup>2) / 3\<bar> \<le> 1 / 200"
proof -
  let ?e = "sqrt ((X0 - claim_X cl)\<^sup>2 + (Z0 - claim_Z cl)\<^sup>2) / 3"
  from assms have "resolve_distances request X0 Z0 claims c = Some (round2 ?e)"
    by (simp add: resolve_distances_lookup dist_claim_def)
  moreover have "0 \<le> round2 ?e" by (rule round2_nonneg) simp
  moreover have "\<exists>k::int. round2 ?e = of_int k / 100" by (rule round2_hundredths)
  moreover have "\<bar>round2 ?e - ?e\<bar> \<le> 1 / 200" by (rule round2_near)
  ultimately show ?thesis by blast
qed

lemma claim_list_plank: "claim_list plank_trades = [''100'', ''200'', ''300'']"
  by code_simp

lemma sqrt_25: "sqrt 25 = 5"
  using real_sqrt_abs [of 5] by simp

lemma round2_five_thirds: "round2 (5 / 3) = 167 / 100"
  by (simp add: round2_def rint_def Let_def)

lemma dist_mill: "dist_claim 0 0 \<lparr> claim_X = 3, claim_Z = 4 \<rparr> = 167 / 100"
  by (simp add: dist_claim_def sqrt_25 round2_five_thirds)

theorem resolved_distance_witness:
  "resolve_distances claim_request 0 0 (claim_list plank_trades) ''200'' = Some (167 / 100)"
proof -
  have "''200'' \<in> set (claim_list plank_trades)" by (simp add: claim_list_plank)
  moreover have "claim_request ''200'' = Some \<lparr> claim_X = 3, claim_Z = 4 \<rparr>"
    by (simp add: claim_request_def)
  ultimately have "\<exists>d. resolve_distances claim_request 0 0 (claim_list plank_trades) ''200'' = Some d
           \<and> d = round2 (sqrt ((0 - claim_X \<lparr> claim_X = 3, claim_Z = 4 \<rparr>)\<^sup>2
                              + (0 - claim_Z \<lparr> claim_X = 3, claim_Z = 4 \<rparr>)\<^sup>2) / 3)"
    using resolved_distance [of "''200''" "claim_list plank_trades" claim_request
        "\<lparr> claim_X = 3, claim_Z = 4 \<rparr>" 0 0]
    by blast
  then obtain d where
    "resolve_distances claim_request 0 0 (claim_list plank_trades) ''200'' = Some d"
    "d = round2 (sqrt ((0 - claim_X \<lparr> claim_X = 3, claim_Z = 4 \<rparr>)\<^sup>2
                              + (0 - claim_Z \<lparr> claim_X = 3, claim_Z = 4 \<rparr>)\<^sup>2) / 3)"
    by blast
  then show ?thesis by (simp add: sqrt_25 round2_five_thirds)
qed

subsection \<open>The capacity model\<close>

lemma int_truediv_floor:
  assumes "0 \<le> a" and "0 < b"
  shows "int_truediv a b = Inr (a div b)"
proof (cases "a = 0")
  case True
  with assms show ?thesis by (simp add: int_truediv_def)
next
  case False
  with assms have "0 < a" by simp
  with assms show ?thesis by (simp add: int_truediv_def)
qed

lemma slot_qty_effective: "slot_qty v label = effective_capacity v label"
  by (simp add: slot_qty_def effective_capacity_def base_item_qty_def base_cargo_qty_def
      mult.commute)

lemma effective_capacity_nonneg:
  assumes "0 \<le> item_slots v" "0 \<le> item_slot_size v" "0 \<le> cargo_slots v" "0 \<le> cargo_slot_size v"
  shows "0 \<le> effective_capacity v label"
  using assms by (simp add: effective_capacity_def player_capacity_def)

lemma vehicle_quantity_min:
  assumes "0 < itemVolume r"
    and "0 \<le> item_slots v" "0 \<le> item_slot_size v" "0 \<le> cargo_slots v" "0 \<le> cargo_slot_size v"
  shows "vehicle_quantity v r =
           Inr (min (Trade_Quantity r) (effective_capacity v (itemTypeStr r) div itemVolume r))"
  using assms effective_capacity_nonneg [of v "itemTypeStr r"]
  by (simp add: vehicle_quantity_def slot_qty_effective int_truediv_floor)

lemma add_vehicle_Inr:
  assumes "add_vehicle nv r = Inr r'"
  shows "\<exists>q. vehicle_quantity (snd nv) r = Inr q \<and>
           r' = r\<lparr> vehicle_columns := vehicle_columns r @
                 [(fst nv,
                   \<lparr> Quantity = q,
                     Profit = int64 (q * Unit_Profit r),
                     Profit_per_1k_Dist =
                       np_round (truediv (int64 (1000 * int64 (q * Unit_Profit r))) (Distance r)) \<rparr>)] \<rparr>"
  using assms by (auto simp: add_vehicle_def split: sum.splits)

subsection \<open>The passes over vehicles and rows\<close>

lemma each_row_Inr:
  "each_row f xs = Inr ys \<longleftrightarrow> list_all2 (\<lambda>x y. f x = Inr y) xs ys"
proof (induction xs arbitrary: ys)
  case Nil
  show ?case by auto
next
  case (Cons x xs)
  show ?case
    by (cases ys; cases "f x"; cases "each_row f xs") (auto simp: Cons.IH [symmetric])
qed

lemma each_row_member:
  assumes "each_row f xs = Inr ys" and "y \<in> set ys"
  shows "\<exists>x \<in> set xs. f x = Inr y"
proof -
  from assms(1) have l: "list_all2 (\<lambda>x y. f x = Inr y) xs ys" by (simp only: each_row_Inr)
  from assms(2) obtain i where "i < length ys" "ys ! i = y" by (auto simp: in_set_conv_nth)
  with l have "i < length xs" "f (xs ! i) = Inr y"
    by (auto simp: list_all2_conv_all_nth)
  then show ?thesis by (metis nth_mem)
qed

lemma each_row_total:
  assumes "\<And>x. x \<in> set xs \<Longrightarrow> \<exists>y. f x = Inr y"
  shows "\<exists>ys. each_row f xs = Inr ys"
  using assms
proof (induction xs)
  case Nil
  show ?case by simp
next
  case (Cons x xs)
  from Cons.prems obtain y where "f x = Inr y" by auto
  moreover from Cons obtain ys where "each_row f xs = Inr ys" by auto
  ultimately show ?case by simp
qed

lemma capacity_limits_invariant:
  assumes "capacity_limits vehicles full_df = Inr full_df'"
    and "\<And>r. r \<in> set full_df \<Longrightarrow> P r"
    and "\<And>nv r r'. P r \<Longrightarrow> add_vehicle nv r = Inr r' \<Longrightarrow> P r'"
    and "r' \<in> set full_df'"
  shows "P r'"
  using assms(1,2,4)
proof (induction vehicles arbitrary: full_df)
  case Nil
  then show ?case by simp
next
  case (Cons nv vehicles)
  from Cons.prems(1) obtain mid where
    mid: "each_row (add_vehicle nv) full_df = Inr mid"
    and rest: "capacity_limits vehicles mid = Inr full_df'"
    by (auto split: sum.splits)
  have "P r" if "r \<in> set mid" for r
  proof -
    from each_row_member [OF mid that] obtain r0 where
      "r0 \<in> set full_df" "add_vehicle nv r0 = Inr r" by blast
    with Cons.prems(2) assms(3) show ?thesis by blast
  qed
  with Cons.IH [OF rest] Cons.prems(3) show ?case by blast
qed

lemma capacity_limits_first:
  assumes "capacity_limits (nv # vehicles) full_df = Inr full_df'"
    and "\<And>r r'. add_vehicle nv r = Inr r' \<Longrightarrow> P r'"
    and "\<And>nv r r'. P r \<Longrightarrow> add_vehicle nv r = Inr r' \<Longrightarrow> P r'"
    and "r' \<in> set full_df'"
  shows "P r'"
proof -
  from assms(1) obtain mid where
    mid: "each_row (add_vehicle nv) full_df = Inr mid"
    and rest: "capacity_limits vehicles mid = Inr full_df'"
    by (auto split: sum.splits)
  have midP: "P r" if "r \<in> set mid" for r
    using each_row_member [OF mid that] assms(2) by blast
  show ?thesis
  proof (rule capacity_limits_invariant [where P = P, OF rest])
    fix r assume "r \<in> set mid"
    then show "P r" by (rule midP)
  next
    fix nv r r' assume "P r" "add_vehicle nv r = Inr r'"
    then show "P r'" by (rule assms(3))
  next
    show "r' \<in> set full_df'" by (rule assms(4))
  qed
qed

lemma capacity_limits_total:
  assumes "\<And>r. r \<in> set full_df \<Longrightarrow> itemVolume r \<noteq> 0"
  shows "\<exists>full_df'. capacity_limits vehicles full_df = Inr full_df'"
  using assms
proof (induction vehicles arbitrary: full_df)
  case Nil
  show ?case by simp
next
  case (Cons nv vehicles)
  have "\<exists>r'. add_vehicle nv r = Inr r'" if "r \<in> set full_df" for r
    using Cons.prems [OF that]
    by (simp add: add_vehicle_def vehicle_quantity_def int_truediv_def)
  from each_row_total [of full_df "add_vehicle nv", OF this] obtain mid where
    mid: "each_row (add_vehicle nv) full_df = Inr mid" by blast
  have "itemVolume r \<noteq> 0" if "r \<in> set mid" for r
  proof -
    from each_row_member [OF mid that] obtain r0 where
      r0: "r0 \<in> set full_df" "add_vehicle nv r0 = Inr r" by blast
    from add_vehicle_Inr [OF r0(2)] have "itemVolume r = itemVolume r0" by auto
    with Cons.prems [OF r0(1)] show ?thesis by simp
  qed
  from Cons.IH [OF this] mid show ?case by simp
qed

lemma with_distance_cols:
  "Distance (with_distance claim_id dist_dict t) =
     (case dist_dict (target_claim claim_id t) of None \<Rightarrow> PInf | Some d \<Rightarrow> Fin d)"
  "vehicle_columns (with_distance claim_id dist_dict t) = []"
  "target_claim claim_id (with_distance claim_id dist_dict t) = target_claim claim_id t"
  "itemVolume (with_distance claim_id dist_dict t) = itemVolume t"
  by (simp_all add: with_distance_def target_claim_def trade.defs ranked.defs)

lemma truediv_zero: "truediv n (Fin 0) \<in> {PInf, NInf, NaN}"
  by simp

lemma np_round_special: "x \<in> {PInf, NInf, NaN} \<Longrightarrow> np_round x \<in> {PInf, NInf, NaN}"
  by auto

lemma add_vehicle_Distance:
  assumes "add_vehicle nv r = Inr r'"
  shows "Distance r' = Distance r"
  using add_vehicle_Inr [OF assms] by auto

lemma add_vehicle_target_claim:
  assumes "add_vehicle nv r = Inr r'"
  shows "target_claim claim_id r' = target_claim claim_id r"
proof -
  from add_vehicle_Inr [OF assms] have
    "buyClaimEntityId r' = buyClaimEntityId r" "sellClaimEntityId r' = sellClaimEntityId r"
    by auto
  then show ?thesis by (simp add: target_claim_def)
qed

lemma add_vehicle_columns:
  assumes "add_vehicle nv r = Inr r'"
  shows "\<exists>c. vehicle_columns r' = vehicle_columns r @ [(fst nv, c)] \<and>
           Profit_per_1k_Dist c = np_round (truediv (int64 (1000 * Profit c)) (Distance r))"
  using add_vehicle_Inr [OF assms] by auto

text \<open>What holds of every row of the ranked table.\<close>

lemma rank_trades_rows:
  assumes "rank_trades request claim_id X0 Z0 full_df = Inr tbl" and "r \<in> set tbl"
  shows "Distance r =
           (case resolve_distances request X0 Z0 (claim_list full_df) (target_claim claim_id r) of
              None \<Rightarrow> PInf | Some d \<Rightarrow> Fin d)"
    and "\<forall>nc \<in> set (vehicle_columns r).
           Profit_per_1k_Dist (snd nc) = np_round (truediv (int64 (1000 * Profit (snd nc))) (Distance r))"
    and "vehicle_columns r \<noteq> []"
proof -
  let ?dd = "resolve_distances request X0 Z0 (claim_list full_df)"
  let ?P = "\<lambda>r. Distance r =
           (case ?dd (target_claim claim_id r) of None \<Rightarrow> PInf | Some d \<Rightarrow> Fin d)
         \<and> (\<forall>nc \<in> set (vehicle_columns r).
           Profit_per_1k_Dist (snd nc) = np_round (truediv (int64 (1000 * Profit (snd nc))) (Distance r)))"
  from assms(1) have cl: "capacity_limits vehicle_capacity
             (map (with_distance claim_id ?dd) full_df) = Inr tbl"
    by (simp add: rank_trades_def split: if_splits)
  have base: "?P r0" if "r0 \<in> set (map (with_distance claim_id ?dd) full_df)" for r0
    using that by (auto simp: with_distance_cols)
  have step: "?P r2" if p: "?P r1" and a: "add_vehicle nv r1 = Inr r2" for nv r1 r2
  proof -
    from add_vehicle_columns [OF a] obtain c where
      "vehicle_columns r2 = vehicle_columns r1 @ [(fst nv, c)]"
      "Profit_per_1k_Dist c = np_round (truediv (int64 (1000 * Profit c)) (Distance r1))"
      by blast
    with add_vehicle_Distance [OF a] add_vehicle_target_claim [OF a, of claim_id] have
      k: "Distance r2 = Distance r1" "target_claim claim_id r2 = target_claim claim_id r1"
        "vehicle_columns r2 = vehicle_columns r1 @ [(fst nv, c)]"
        "Profit_per_1k_Dist c = np_round (truediv (int64 (1000 * Profit c)) (Distance r1))"
      by blast+
    from p k(1,2) have "Distance r2 =
           (case ?dd (target_claim claim_id r2) of None \<Rightarrow> PInf | Some d \<Rightarrow> Fin d)"
      by simp
    moreover from p k(1,3,4) have "\<forall>nc \<in> set (vehicle_columns r2).
           Profit_per_1k_Dist (snd nc) = np_round (truediv (int64 (1000 * Profit (snd nc))) (Distance r2))"
      by auto
    ultimately show ?thesis by blast
  qed
  have "?P r"
  proof (rule capacity_limits_invariant [where P = ?P, OF cl])
    fix r0 assume "r0 \<in> set (map (with_distance claim_id ?dd) full_df)"
    then show "?P r0" by (rule base)
  next
    fix nv r1 r2 assume "?P r1" "add_vehicle nv r1 = Inr r2"
    then show "?P r2" by (rule step)
  next
    show "r \<in> set tbl" by (rule assms(2))
  qed
  then show "Distance r =
           (case ?dd (target_claim claim_id r) of None \<Rightarrow> PInf | Some d \<Rightarrow> Fin d)"
    and "\<forall>nc \<in> set (vehicle_columns r).
           Profit_per_1k_Dist (snd nc) = np_round (truediv (int64 (1000 * Profit (snd nc))) (Distance r))"
    by blast+
  have v: "vehicle_capacity = hd vehicle_capacity # tl vehicle_capacity"
    by (simp add: vehicle_capacity_def)
  have first: "vehicle_columns r2 \<noteq> []" if "add_vehicle nv r1 = Inr r2" for nv r1 r2
    using add_vehicle_Inr [OF that] by auto
  from cl have cl': "capacity_limits (hd vehicle_capacity # tl vehicle_capacity)
             (map (with_distance claim_id ?dd) full_df) = Inr tbl"
    using v by simp
  show "vehicle_columns r \<noteq> []"
  proof (rule capacity_limits_first [where P = "\<lambda>r. vehicle_columns r \<noteq> []", OF cl'])
    fix r1 r2 assume "add_vehicle (hd vehicle_capacity) r1 = Inr r2"
    then show "vehicle_columns r2 \<noteq> []" by (rule first)
  next
    fix nv r1 r2 assume "add_vehicle nv r1 = Inr r2"
    then show "vehicle_columns r2 \<noteq> []" by (rule first)
  next
    show "r \<in> set tbl" by (rule assms(2))
  qed
qed

lemma rank_trades_total:
  assumes "full_df \<noteq> []" and "\<forall>t \<in> set full_df. itemVolume t \<noteq> 0"
  shows "\<exists>tbl. rank_trades request claim_id X0 Z0 full_df = Inr tbl"
proof -
  have "itemVolume r \<noteq> 0"
    if "r \<in> set (map (with_distance claim_id
                     (resolve_distances request X0 Z0 (claim_list full_df))) full_df)" for r
    using that assms(2) by (auto simp: with_distance_cols)
  from capacity_limits_total
    [where full_df = "map (with_distance claim_id
                     (resolve_distances request X0 Z0 (claim_list full_df))) full_df"
       and vehicles = vehicle_capacity, OF this]
    assms(1)
  show ?thesis by (simp add: rank_trades_def)
qed


subsection \<open>The columns of the ranked table\<close>

lemma capacity_limits_names:
  assumes "capacity_limits vehicles full_df = Inr full_df'"
    and "\<And>r. r \<in> set full_df \<Longrightarrow> map fst (vehicle_columns r) = names"
    and "r' \<in> set full_df'"
  shows "map fst (vehicle_columns r') = names @ map fst vehicles"
  using assms
proof (induction vehicles arbitrary: full_df names)
  case Nil
  then show ?case by simp
next
  case (Cons nv vehicles)
  from Cons.prems(1) obtain mid where
    mid: "each_row (add_vehicle nv) full_df = Inr mid"
    and rest: "capacity_limits vehicles mid = Inr full_df'"
    by (auto split: sum.splits)
  have "map fst (vehicle_columns r) = names @ [fst nv]" if "r \<in> set mid" for r
  proof -
    from each_row_member [OF mid that] obtain r0 where
      r0: "r0 \<in> set full_df" "add_vehicle nv r0 = Inr r" by blast
    from add_vehicle_columns [OF r0(2)] Cons.prems(2) [OF r0(1)] show ?thesis by auto
  qed
  from Cons.IH [OF rest this Cons.prems(3)] show ?case by simp
qed

lemma capacity_limits_invariant_in:
  assumes "capacity_limits vehicles full_df = Inr full_df'"
    and "\<And>r. r \<in> set full_df \<Longrightarrow> P r"
    and "\<And>nv r r'. nv \<in> set vehicles \<Longrightarrow> P r \<Longrightarrow> add_vehicle nv r = Inr r' \<Longrightarrow> P r'"
    and "r' \<in> set full_df'"
  shows "P r'"
  using assms
proof (induction vehicles arbitrary: full_df)
  case Nil
  then show ?case by simp
next
  case (Cons nv vehicles)
  from Cons.prems(1) obtain mid where
    mid: "each_row (add_vehicle nv) full_df = Inr mid"
    and rest: "capacity_limits vehicles mid = Inr full_df'"
    by (auto split: sum.splits)
  have midP: "P r" if "r \<in> set mid" for r
  proof -
    from each_row_member [OF mid that] obtain r0 where
      "r0 \<in> set full_df" "add_vehicle nv r0 = Inr r" by blast
    with Cons.prems(2) Cons.prems(3) [of nv r0 r] show ?thesis by simp
  qed
  show ?case
  proof (rule Cons.IH [OF rest])
    fix r assume "r \<in> set mid"
    then show "P r" by (rule midP)
  next
    fix nv' r1 r2 assume "nv' \<in> set vehicles" "P r1" "add_vehicle nv' r1 = Inr r2"
    then show "P r2" using Cons.prems(3) [of nv' r1 r2] by simp
  next
    show "r' \<in> set full_df'" by (rule Cons.prems(4))
  qed
qed

lemma add_vehicle_quantity_cols:
  assumes "add_vehicle nv r = Inr r'"
  shows "vehicle_quantity v r' = vehicle_quantity v r"
    and "Unit_Profit r' = Unit_Profit r"
    and "\<exists>c. vehicle_columns r' = vehicle_columns r @ [(fst nv, c)] \<and>
           vehicle_quantity (snd nv) r = Inr (Quantity c) \<and>
           Profit c = int64 (Quantity c * Unit_Profit r)"
proof -
  from add_vehicle_Inr [OF assms] obtain q where
    q: "vehicle_quantity (snd nv) r = Inr q"
    and r': "r' = r\<lparr> vehicle_columns := vehicle_columns r @
                 [(fst nv,
                   \<lparr> Quantity = q,
                     Profit = int64 (q * Unit_Profit r),
                     Profit_per_1k_Dist =
                       np_round (truediv (int64 (1000 * int64 (q * Unit_Profit r))) (Distance r)) \<rparr>)] \<rparr>"
    by blast
  from r' have same: "itemTypeStr r' = itemTypeStr r" "itemVolume r' = itemVolume r"
    "Trade_Quantity r' = Trade_Quantity r"
    by simp_all
  show "vehicle_quantity v r' = vehicle_quantity v r"
    by (simp only: vehicle_quantity_def same)
  from r' show "Unit_Profit r' = Unit_Profit r" by simp
  from r' q show "\<exists>c. vehicle_columns r' = vehicle_columns r @ [(fst nv, c)] \<and>
           vehicle_quantity (snd nv) r = Inr (Quantity c) \<and>
           Profit c = int64 (Quantity c * Unit_Profit r)"
    by simp
qed

lemma vehicle_capacity_nonneg:
  assumes "(name, v) \<in> set vehicle_capacity"
  shows "0 \<le> item_slots v" "0 \<le> item_slot_size v" "0 \<le> cargo_slots v" "0 \<le> cargo_slot_size v"
  using assms by (auto simp: vehicle_capacity_def)

lemma rank_trades_quantities:
  assumes "rank_trades request claim_id X0 Z0 full_df = Inr tbl" and "r \<in> set tbl"
  shows "map fst (vehicle_columns r) = map fst vehicle_capacity"
    and "\<forall>nc \<in> set (vehicle_columns r).
           \<exists>v. (fst nc, v) \<in> set vehicle_capacity \<and>
               vehicle_quantity v r = Inr (Quantity (snd nc)) \<and>
               Profit (snd nc) = int64 (Quantity (snd nc) * Unit_Profit r)"
proof -
  let ?start = "map (with_distance claim_id
                  (resolve_distances request X0 Z0 (claim_list full_df))) full_df"
  let ?P = "\<lambda>r. \<forall>nc \<in> set (vehicle_columns r).
           \<exists>v. (fst nc, v) \<in> set vehicle_capacity \<and>
               vehicle_quantity v r = Inr (Quantity (snd nc)) \<and>
               Profit (snd nc) = int64 (Quantity (snd nc) * Unit_Profit r)"
  from assms(1) have cl: "capacity_limits vehicle_capacity ?start = Inr tbl"
    by (simp add: rank_trades_def split: if_splits)
  have empty: "vehicle_columns r0 = []" if "r0 \<in> set ?start" for r0
    using that by (auto simp: with_distance_cols)
  have "map fst (vehicle_columns r) = [] @ map fst vehicle_capacity"
  proof (rule capacity_limits_names [OF cl _ assms(2)])
    fix r0 assume "r0 \<in> set ?start"
    then show "map fst (vehicle_columns r0) = []" by (simp add: empty)
  qed
  then show "map fst (vehicle_columns r) = map fst vehicle_capacity" by simp
  show "?P r"
  proof (rule capacity_limits_invariant_in [where P = ?P, OF cl])
    fix r0 assume "r0 \<in> set ?start"
    then show "?P r0" by (simp add: empty)
  next
    fix nv r1 r2
    assume nv: "nv \<in> set vehicle_capacity" and p: "?P r1" and a: "add_vehicle nv r1 = Inr r2"
    from add_vehicle_quantity_cols(3) [OF a] obtain c where
      c: "vehicle_columns r2 = vehicle_columns r1 @ [(fst nv, c)]"
        "vehicle_quantity (snd nv) r1 = Inr (Quantity c)"
        "Profit c = int64 (Quantity c * Unit_Profit r1)"
      by blast
    show "?P r2"
    proof
      fix nc assume "nc \<in> set (vehicle_columns r2)"
      with c(1) have "nc \<in> set (vehicle_columns r1) \<or> nc = (fst nv, c)" by auto
      then show "\<exists>v. (fst nc, v) \<in> set vehicle_capacity \<and>
               vehicle_quantity v r2 = Inr (Quantity (snd nc)) \<and>
               Profit (snd nc) = int64 (Quantity (snd nc) * Unit_Profit r2)"
      proof
        assume "nc \<in> set (vehicle_columns r1)"
        with p show ?thesis
          by (simp add: add_vehicle_quantity_cols(1,2) [OF a])
      next
        assume "nc = (fst nv, c)"
        with c(2,3) nv show ?thesis
          by (intro exI [of _ "snd nv"]) (simp add: add_vehicle_quantity_cols(1,2) [OF a])
      qed
    qed
  next
    show "r \<in> set tbl" by (rule assms(2))
  qed
qed

text \<open>
  Claim C1. For a row with a positive volume and a vehicle whose slot figures are not
  negative, the columns added for the vehicle hold the smaller of the trade quantity and
  the effective capacity divided by the volume, rounded down; the quantity exceeds neither
  the trade quantity nor the rounded quotient. The profit is that quantity times the unit
  profit as the 64-bit column holds it: the product itself when it lies in the range of
  the column, and the product wrapped around otherwise. Every row of positive volume of
  the ranked table has such columns for each vehicle of the table of vehicles, and for no
  other.
\<close>

theorem capped_quantity_and_profit:
  "(0 < itemVolume r \<and> 0 \<le> item_slots v \<and> 0 \<le> item_slot_size v
      \<and> 0 \<le> cargo_slots v \<and> 0 \<le> cargo_slot_size v \<longrightarrow>
      (\<exists>c. add_vehicle (name, v) r =
              Inr (r\<lparr> vehicle_columns := vehicle_columns r @ [(name, c)] \<rparr>)
          \<and> Quantity c =
              min (Trade_Quantity r) (effective_capacity v (itemTypeStr r) div itemVolume r)
          \<and> Profit c = int64 (Quantity c * Unit_Profit r)
          \<and> (- (2 ^ 63) \<le> Quantity c * Unit_Profit r \<and> Quantity c * Unit_Profit r < 2 ^ 63
               \<longrightarrow> Profit c = Quantity c * Unit_Profit r)
          \<and> Quantity c \<le> Trade_Quantity r
          \<and> Quantity c \<le> effective_capacity v (itemTypeStr r) div itemVolume r))
   \<and> (rank_trades request claim_id X0 Z0 full_df = Inr tbl \<longrightarrow>
        (\<forall>row \<in> set tbl.
           0 < itemVolume row \<longrightarrow>
             map fst (vehicle_columns row) = map fst vehicle_capacity
             \<and> (\<forall>nc \<in> set (vehicle_columns row).
                  \<exists>profile. (fst nc, profile) \<in> set vehicle_capacity
                    \<and> Quantity (snd nc) =
                        min (Trade_Quantity row)
                          (effective_capacity profile (itemTypeStr row) div itemVolume row)
                    \<and> Profit (snd nc) = int64 (Quantity (snd nc) * Unit_Profit row)
                    \<and> (- (2 ^ 63) \<le> Quantity (snd nc) * Unit_Profit row
                         \<and> Quantity (snd nc) * Unit_Profit row < 2 ^ 63
                         \<longrightarrow> Profit (snd nc) = Quantity (snd nc) * Unit_Profit row)
                    \<and> Quantity (snd nc) \<le> Trade_Quantity row
                    \<and> Quantity (snd nc) \<le>
                        effective_capacity profile (itemTypeStr row) div itemVolume row)))"
proof (intro conjI impI)
  assume a: "0 < itemVolume r \<and> 0 \<le> item_slots v \<and> 0 \<le> item_slot_size v
      \<and> 0 \<le> cargo_slots v \<and> 0 \<le> cargo_slot_size v"
  let ?q = "min (Trade_Quantity r) (effective_capacity v (itemTypeStr r) div itemVolume r)"
  let ?c = "\<lparr> Quantity = ?q, Profit = int64 (?q * Unit_Profit r),
              Profit_per_1k_Dist =
                np_round (truediv (int64 (1000 * int64 (?q * Unit_Profit r))) (Distance r)) \<rparr>"
  from a have "vehicle_quantity v r = Inr ?q" by (intro vehicle_quantity_min) simp_all
  then have "add_vehicle (name, v) r =
      Inr (r\<lparr> vehicle_columns := vehicle_columns r @ [(name, ?c)] \<rparr>)"
    by (simp add: add_vehicle_def)
  moreover have "Quantity ?c = ?q" "Profit ?c = int64 (Quantity ?c * Unit_Profit r)"
    "Quantity ?c \<le> Trade_Quantity r"
    "Quantity ?c \<le> effective_capacity v (itemTypeStr r) div itemVolume r"
    by simp_all
  moreover have "- (2 ^ 63) \<le> Quantity ?c * Unit_Profit r
      \<and> Quantity ?c * Unit_Profit r < 2 ^ 63
      \<longrightarrow> Profit ?c = Quantity ?c * Unit_Profit r"
    by (simp add: int64_in_range)
  ultimately show "\<exists>c. add_vehicle (name, v) r =
              Inr (r\<lparr> vehicle_columns := vehicle_columns r @ [(name, c)] \<rparr>)
          \<and> Quantity c =
              min (Trade_Quantity r) (effective_capacity v (itemTypeStr r) div itemVolume r)
          \<and> Profit c = int64 (Quantity c * Unit_Profit r)
          \<and> (- (2 ^ 63) \<le> Quantity c * Unit_Profit r \<and> Quantity c * Unit_Profit r < 2 ^ 63
               \<longrightarrow> Profit c = Quantity c * Unit_Profit r)
          \<and> Quantity c \<le> Trade_Quantity r
          \<and> Quantity c \<le> effective_capacity v (itemTypeStr r) div itemVolume r"
    by blast
next
  assume rt: "rank_trades request claim_id X0 Z0 full_df = Inr tbl"
  show "\<forall>row \<in> set tbl.
           0 < itemVolume row \<longrightarrow>
             map fst (vehicle_columns row) = map fst vehicle_capacity
             \<and> (\<forall>nc \<in> set (vehicle_columns row).
                  \<exists>profile. (fst nc, profile) \<in> set vehicle_capacity
                    \<and> Quantity (snd nc) =
                        min (Trade_Quantity row)
                          (effective_capacity profile (itemTypeStr row) div itemVolume row)
                    \<and> Profit (snd nc) = int64 (Quantity (snd nc) * Unit_Profit row)
                    \<and> (- (2 ^ 63) \<le> Quantity (snd nc) * Unit_Profit row
                         \<and> Quantity (snd nc) * Unit_Profit row < 2 ^ 63
                         \<longrightarrow> Profit (snd nc) = Quantity (snd nc) * Unit_Profit row)
                    \<and> Quantity (snd nc) \<le> Trade_Quantity row
                    \<and> Quantity (snd nc) \<le>
                        effective_capacity profile (itemTypeStr row) div itemVolume row)"
  proof (rule ballI, rule impI, rule conjI)
    fix row assume m: "row \<in> set tbl" and vol: "0 < itemVolume row"
    show "map fst (vehicle_columns row) = map fst vehicle_capacity"
      by (rule rank_trades_quantities(1) [OF rt m])
    show "\<forall>nc \<in> set (vehicle_columns row).
            \<exists>profile. (fst nc, profile) \<in> set vehicle_capacity
              \<and> Quantity (snd nc) =
                  min (Trade_Quantity row)
                    (effective_capacity profile (itemTypeStr row) div itemVolume row)
              \<and> Profit (snd nc) = int64 (Quantity (snd nc) * Unit_Profit row)
              \<and> (- (2 ^ 63) \<le> Quantity (snd nc) * Unit_Profit row
                   \<and> Quantity (snd nc) * Unit_Profit row < 2 ^ 63
                   \<longrightarrow> Profit (snd nc) = Quantity (snd nc) * Unit_Profit row)
              \<and> Quantity (snd nc) \<le> Trade_Quantity row
              \<and> Quantity (snd nc) \<le>
                  effective_capacity profile (itemTypeStr row) div itemVolume row"
    proof
      fix nc assume "nc \<in> set (vehicle_columns row)"
      with rank_trades_quantities(2) [OF rt m] obtain profile where
        p: "(fst nc, profile) \<in> set vehicle_capacity"
          "vehicle_quantity profile row = Inr (Quantity (snd nc))"
          "Profit (snd nc) = int64 (Quantity (snd nc) * Unit_Profit row)"
        by blast
      from vehicle_quantity_min [OF vol vehicle_capacity_nonneg [OF p(1)]] p(2)
      have "Quantity (snd nc) =
              min (Trade_Quantity row)
                (effective_capacity profile (itemTypeStr row) div itemVolume row)"
        by simp
      moreover from p(3) have "- (2 ^ 63) \<le> Quantity (snd nc) * Unit_Profit row
                   \<and> Quantity (snd nc) * Unit_Profit row < 2 ^ 63
                   \<longrightarrow> Profit (snd nc) = Quantity (snd nc) * Unit_Profit row"
        by (simp add: int64_in_range)
      ultimately show "\<exists>profile. (fst nc, profile) \<in> set vehicle_capacity
              \<and> Quantity (snd nc) =
                  min (Trade_Quantity row)
                    (effective_capacity profile (itemTypeStr row) div itemVolume row)
              \<and> Profit (snd nc) = int64 (Quantity (snd nc) * Unit_Profit row)
              \<and> (- (2 ^ 63) \<le> Quantity (snd nc) * Unit_Profit row
                   \<and> Quantity (snd nc) * Unit_Profit row < 2 ^ 63
                   \<longrightarrow> Profit (snd nc) = Quantity (snd nc) * Unit_Profit row)
              \<and> Quantity (snd nc) \<le> Trade_Quantity row
              \<and> Quantity (snd nc) \<le>
                  effective_capacity profile (itemTypeStr row) div itemVolume row"
        using p(1,3) by (intro exI [of _ profile]) simp
    qed
  qed
qed

text \<open>
  The stone trade on the cargo ship: 606000 units of room hold 86 stones of volume 7000,
  fewer than the 500 of the trade, and the profit is 86 times 3.
\<close>

theorem capped_quantity_and_profit_witness:
  "add_vehicle (''Cargo Ship'', snd (vehicle_capacity ! 3)) stone_row =
     Inr (stone_row\<lparr> vehicle_columns :=
            [(''Cargo Ship'',
              \<lparr> Quantity = 86, Profit = 258, Profit_per_1k_Dist = Fin 25800 \<rparr>)] \<rparr>)"
proof -
  have v: "snd (vehicle_capacity ! 3) =
      \<lparr> item_slots = 30, cargo_slots = 10, item_slot_size = 6000, cargo_slot_size = 60000 \<rparr>"
    by (simp add: vehicle_capacity_def)
  have vol: "0 < itemVolume stone_row" by (simp add: stone_row_def trade.defs ranked.defs)
  have slots: "0 \<le> item_slots (snd (vehicle_capacity ! 3))"
    "0 \<le> item_slot_size (snd (vehicle_capacity ! 3))"
    "0 \<le> cargo_slots (snd (vehicle_capacity ! 3))"
    "0 \<le> cargo_slot_size (snd (vehicle_capacity ! 3))"
    by (simp_all add: v)
  from capped_quantity_and_profit
    [where r = stone_row and v = "snd (vehicle_capacity ! 3)" and name = "''Cargo Ship''",
      THEN conjunct1]
    vol slots
  obtain c where
    c: "add_vehicle (''Cargo Ship'', snd (vehicle_capacity ! 3)) stone_row =
          Inr (stone_row\<lparr> vehicle_columns := vehicle_columns stone_row @ [(''Cargo Ship'', c)] \<rparr>)"
    and q: "Quantity c =
          min (Trade_Quantity stone_row)
            (effective_capacity (snd (vehicle_capacity ! 3)) (itemTypeStr stone_row)
               div itemVolume stone_row)"
    and p: "- (2 ^ 63) \<le> Quantity c * Unit_Profit stone_row
            \<and> Quantity c * Unit_Profit stone_row < 2 ^ 63
            \<longrightarrow> Profit c = Quantity c * Unit_Profit stone_row"
    by blast
  from q have q': "Quantity c = 86"
    by (simp add: v effective_capacity_def player_capacity_def stone_row_def trade.defs ranked.defs)
  have up: "Unit_Profit stone_row = 3" by (simp add: stone_row_def trade.defs ranked.defs)
  from p have p': "Profit c = 258"
    unfolding q' up by simp
  have i: "int64 258 = 258" "int64 258000 = 258000"
    by (simp_all add: int64_def)
  from c q' p' have "Profit_per_1k_Dist c = Fin 25800"
    by (simp add: add_vehicle_def vehicle_quantity_def split: sum.splits)
       (auto simp: stone_row_def trade.defs ranked.defs round2_def rint_def Let_def i)
  with q' p' have "c = \<lparr> Quantity = 86, Profit = 258, Profit_per_1k_Dist = Fin 25800 \<rparr>"
    by (cases c) simp
  with c show ?thesis by (simp add: stone_row_def trade.defs ranked.defs)
qed

text \<open>
  Three gems of unit profit \<open>2 ^ 62\<close> on the cargo ship: the quantity is 3, the product
  \<open>3 * 2 ^ 62\<close> is above the range of the column, and the profit column holds
  \<open>- (2 ^ 62)\<close>.
\<close>

theorem capped_profit_counterexample:
  "add_vehicle (''Cargo Ship'', snd (vehicle_capacity ! 3)) gem_row =
     Inr (gem_row\<lparr> vehicle_columns :=
            [(''Cargo Ship'',
              \<lparr> Quantity = 3, Profit = - 4611686018427387904,
                Profit_per_1k_Dist = Fin 0 \<rparr>)] \<rparr>)
   \<and> 3 * Unit_Profit gem_row = 13835058055282163712
   \<and> - 4611686018427387904 \<noteq> 3 * Unit_Profit gem_row"
proof -
  have v: "snd (vehicle_capacity ! 3) =
      \<lparr> item_slots = 30, cargo_slots = 10, item_slot_size = 6000, cargo_slot_size = 60000 \<rparr>"
    by (simp add: vehicle_capacity_def)
  have cols: "itemTypeStr gem_row = ''Item''" "itemVolume gem_row = 1"
    "Trade_Quantity gem_row = 3" "Unit_Profit gem_row = 4611686018427387904"
    "Distance gem_row = Fin 10" "vehicle_columns gem_row = []"
    by (simp_all add: gem_row_def trade.defs ranked.defs)
  have q: "vehicle_quantity (snd (vehicle_capacity ! 3)) gem_row = Inr 3"
    by (simp add: vehicle_quantity_def cols v slot_qty_def base_item_qty_def
        player_capacity_def int_truediv_def)
  have p: "int64 (3 * 4611686018427387904) = - 4611686018427387904"
    by (simp add: int64_def)
  have d: "int64 (1000 * (- 4611686018427387904)) = 0"
    by (simp add: int64_def)
  have z: "np_round (truediv 0 (Fin 10)) = Fin 0"
    by (simp add: round2_def rint_def)
  have "add_vehicle (''Cargo Ship'', snd (vehicle_capacity ! 3)) gem_row =
     Inr (gem_row\<lparr> vehicle_columns := vehicle_columns gem_row @
            [(''Cargo Ship'',
              \<lparr> Quantity = 3, Profit = int64 (3 * Unit_Profit gem_row),
                Profit_per_1k_Dist =
                  np_round (truediv (int64 (1000 * int64 (3 * Unit_Profit gem_row)))
                              (Distance gem_row)) \<rparr>)] \<rparr>)"
    by (simp only: add_vehicle_def q sum.case fst_conv snd_conv)
  then have "add_vehicle (''Cargo Ship'', snd (vehicle_capacity ! 3)) gem_row =
     Inr (gem_row\<lparr> vehicle_columns :=
            [(''Cargo Ship'',
              \<lparr> Quantity = 3, Profit = - 4611686018427387904,
                Profit_per_1k_Dist = Fin 0 \<rparr>)] \<rparr>)"
    by (simp only: cols p d z append_Nil)
  then show ?thesis by (simp add: cols)
qed

subsection \<open>The ranked table of the plank market\<close>

lemma plank_distance_port: "dist_claim 0 0 \<lparr> claim_X = 0, claim_Z = 0 \<rparr> = 0"
  by (simp add: dist_claim_def round2_def rint_def)

lemma plank_with_distance:
  "map (with_distance home_id (resolve_distances claim_request 0 0 (claim_list plank_trades)))
     plank_trades =
   [ trade.extend (plank_trades ! 0) (ranked.fields (Fin 0) []),
     trade.extend (plank_trades ! 1) (ranked.fields (Fin 1.67) []),
     trade.extend (plank_trades ! 2) (ranked.fields PInf []) ]"
proof -
  have "resolve_distances claim_request 0 0 (claim_list plank_trades) ''100'' = Some 0"
    "resolve_distances claim_request 0 0 (claim_list plank_trades) ''200'' = Some 1.67"
    "resolve_distances claim_request 0 0 (claim_list plank_trades) ''300'' = None"
    by (simp_all add: resolve_distances_lookup claim_list_plank claim_request_def
        plank_distance_port dist_mill)
  then show ?thesis
    by (simp add: plank_trades_def with_distance_def target_claim_def home_id_def
        trade.defs ranked.defs)
qed

lemma round2_plank: "round2 (250000 / 1.67) = 149700.6"
  by (simp add: round2_def rint_def Let_def)

lemma item_row_add_vehicle:
  assumes "(name, v) \<in> set vehicle_capacity"
    and "itemTypeStr t = ''Item''" and "itemVolume t = 5" and "Trade_Quantity t \<le> 100"
  shows "add_vehicle (name, v) (trade.extend t (ranked.fields d cs)) =
           Inr (trade.extend t (ranked.fields d
                  (cs @ [(name,
                          \<lparr> Quantity = Trade_Quantity t,
                            Profit = int64 (Trade_Quantity t * Unit_Profit t),
                            Profit_per_1k_Dist =
                              np_round (truediv
                                (int64 (1000 * int64 (Trade_Quantity t * Unit_Profit t)))
                                d) \<rparr>)])))"
proof -
  from assms(1) have big: "100 \<le> slot_qty v ''Item'' div 5"
    by (auto simp: vehicle_capacity_def slot_qty_def base_item_qty_def player_capacity_def)
  then have "int_truediv (slot_qty v ''Item'') 5 = Inr (slot_qty v ''Item'' div 5)"
    by (intro int_truediv_floor) auto
  with big assms(2-4) show ?thesis
    by (simp add: add_vehicle_def vehicle_quantity_def trade.defs ranked.defs)
qed

lemma plank_pass:
  assumes "(name, v) \<in> set vehicle_capacity"
  shows "each_row (add_vehicle (name, v))
           [ trade.extend (plank_trades ! 0) (ranked.fields (Fin 0) c0),
             trade.extend (plank_trades ! 1) (ranked.fields (Fin 1.67) c1),
             trade.extend (plank_trades ! 2) (ranked.fields PInf c2) ] =
         Inr [ trade.extend (plank_trades ! 0) (ranked.fields (Fin 0)
                 (c0 @ [(name, \<lparr> Quantity = 5, Profit = 10, Profit_per_1k_Dist = PInf \<rparr>)])),
               trade.extend (plank_trades ! 1) (ranked.fields (Fin 1.67)
                 (c1 @ [(name, \<lparr> Quantity = 50, Profit = 250,
                                 Profit_per_1k_Dist = Fin 149700.6 \<rparr>)])),
               trade.extend (plank_trades ! 2) (ranked.fields PInf
                 (c2 @ [(name, \<lparr> Quantity = 10, Profit = 100, Profit_per_1k_Dist = Fin 0 \<rparr>)])) ]"
proof -
  have t0: "itemTypeStr (plank_trades ! 0) = ''Item''" "itemVolume (plank_trades ! 0) = 5"
    "Trade_Quantity (plank_trades ! 0) \<le> 100"
    and t1: "itemTypeStr (plank_trades ! 1) = ''Item''" "itemVolume (plank_trades ! 1) = 5"
    "Trade_Quantity (plank_trades ! 1) \<le> 100"
    and t2: "itemTypeStr (plank_trades ! 2) = ''Item''" "itemVolume (plank_trades ! 2) = 5"
    "Trade_Quantity (plank_trades ! 2) \<le> 100"
    by (simp_all add: plank_trades_def)
  have c0: "Trade_Quantity (plank_trades ! 0) = 5" "Unit_Profit (plank_trades ! 0) = 2"
    and c1: "Trade_Quantity (plank_trades ! 1) = 50" "Unit_Profit (plank_trades ! 1) = 5"
    and c2: "Trade_Quantity (plank_trades ! 2) = 10" "Unit_Profit (plank_trades ! 2) = 10"
    by (simp_all add: plank_trades_def)
  have i: "int64 (5 * 2) = 10" "int64 (50 * 5) = 250" "int64 (10 * 10) = 100"
    "int64 (1000 * 10) = 10000" "int64 (1000 * 250) = 250000" "int64 (1000 * 100) = 100000"
    by (simp_all add: int64_def)
  have r: "np_round (truediv 10000 (Fin 0)) = PInf"
    "np_round (truediv 250000 (Fin 1.67)) = Fin 149700.6"
    "np_round (truediv 100000 PInf) = Fin 0"
    using round2_plank by (simp_all add: round2_def rint_def)
  show ?thesis
    by (simp only: each_row.simps sum.case c0 c1 c2 i r
        item_row_add_vehicle [OF assms t0] item_row_add_vehicle [OF assms t1]
        item_row_add_vehicle [OF assms t2])
qed

lemma rank_plank_trades:
  "rank_trades claim_request home_id 0 0 plank_trades = Inr plank_ranked"
proof -
  have ne: "plank_trades \<noteq> []" by (simp add: plank_trades_def)
  have v: "(''Raft'', snd (vehicle_capacity ! 0)) \<in> set vehicle_capacity"
    "(''Skiff'', snd (vehicle_capacity ! 1)) \<in> set vehicle_capacity"
    "(''Clipper'', snd (vehicle_capacity ! 2)) \<in> set vehicle_capacity"
    "(''Cargo Ship'', snd (vehicle_capacity ! 3)) \<in> set vehicle_capacity"
    by (simp_all add: vehicle_capacity_def)
  have vc: "vehicle_capacity =
      [ (''Raft'', snd (vehicle_capacity ! 0)), (''Skiff'', snd (vehicle_capacity ! 1)),
        (''Clipper'', snd (vehicle_capacity ! 2)), (''Cargo Ship'', snd (vehicle_capacity ! 3)) ]"
    by (simp add: vehicle_capacity_def)
  have "capacity_limits
          [ (''Raft'', snd (vehicle_capacity ! 0)), (''Skiff'', snd (vehicle_capacity ! 1)),
            (''Clipper'', snd (vehicle_capacity ! 2)), (''Cargo Ship'', snd (vehicle_capacity ! 3)) ]
          [ trade.extend (plank_trades ! 0) (ranked.fields (Fin 0) []),
            trade.extend (plank_trades ! 1) (ranked.fields (Fin 1.67) []),
            trade.extend (plank_trades ! 2) (ranked.fields PInf []) ] = Inr plank_ranked"
    by (simp only: capacity_limits.simps sum.case plank_pass [OF v(1)] plank_pass [OF v(2)]
        plank_pass [OF v(3)] plank_pass [OF v(4)] append.simps plank_ranked_def
        all_vehicles_def list.map)
  with vc have "capacity_limits vehicle_capacity
          [ trade.extend (plank_trades ! 0) (ranked.fields (Fin 0) []),
            trade.extend (plank_trades ! 1) (ranked.fields (Fin 1.67) []),
            trade.extend (plank_trades ! 2) (ranked.fields PInf []) ] = Inr plank_ranked"
    by simp
  with ne show ?thesis
    by (simp only: rank_trades_def plank_with_distance if_False)
qed

subsection \<open>The ranked table of the rope market\<close>

lemma collect_rope_trades: "collect_trades rope_request home_id [rope] = rope_trades"
  by code_simp

lemma claim_list_rope: "claim_list rope_trades = [''100'', ''300'']"
  by code_simp

lemma rope_with_distance:
  "map (with_distance home_id (resolve_distances claim_request 0 0 (claim_list rope_trades)))
     rope_trades =
   [ trade.extend (rope_trades ! 0) (ranked.fields PInf []) ]"
proof -
  have "resolve_distances claim_request 0 0 (claim_list rope_trades) ''300'' = None"
    by (simp add: resolve_distances_lookup claim_list_rope claim_request_def)
  then show ?thesis
    by (simp add: rope_trades_def with_distance_def target_claim_def home_id_def
        trade.defs ranked.defs)
qed

lemma rope_pass:
  assumes "(name, v) \<in> set vehicle_capacity"
  shows "each_row (add_vehicle (name, v))
           [ trade.extend (rope_trades ! 0) (ranked.fields PInf c0) ] =
         Inr [ trade.extend (rope_trades ! 0) (ranked.fields PInf
                 (c0 @ [(name, \<lparr> Quantity = 5, Profit = 20, Profit_per_1k_Dist = Fin 0 \<rparr>)])) ]"
proof -
  have t0: "itemTypeStr (rope_trades ! 0) = ''Item''" "itemVolume (rope_trades ! 0) = 5"
    "Trade_Quantity (rope_trades ! 0) \<le> 100"
    by (simp_all add: rope_trades_def)
  have c0: "Trade_Quantity (rope_trades ! 0) = 5" "Unit_Profit (rope_trades ! 0) = 4"
    by (simp_all add: rope_trades_def)
  have i: "int64 (5 * 4) = 20" "int64 (1000 * 20) = 20000"
    by (simp_all add: int64_def)
  have r: "np_round (truediv 20000 PInf) = Fin 0"
    by (simp add: round2_def rint_def)
  show ?thesis
    by (simp only: each_row.simps sum.case c0 i r item_row_add_vehicle [OF assms t0])
qed

lemma rank_rope_trades:
  "rank_trades claim_request home_id 0 0 rope_trades = Inr rope_ranked"
proof -
  have ne: "rope_trades \<noteq> []" by (simp add: rope_trades_def)
  have v: "(''Raft'', snd (vehicle_capacity ! 0)) \<in> set vehicle_capacity"
    "(''Skiff'', snd (vehicle_capacity ! 1)) \<in> set vehicle_capacity"
    "(''Clipper'', snd (vehicle_capacity ! 2)) \<in> set vehicle_capacity"
    "(''Cargo Ship'', snd (vehicle_capacity ! 3)) \<in> set vehicle_capacity"
    by (simp_all add: vehicle_capacity_def)
  have vc: "vehicle_capacity =
      [ (''Raft'', snd (vehicle_capacity ! 0)), (''Skiff'', snd (vehicle_capacity ! 1)),
        (''Clipper'', snd (vehicle_capacity ! 2)), (''Cargo Ship'', snd (vehicle_capacity ! 3)) ]"
    by (simp add: vehicle_capacity_def)
  have "capacity_limits
          [ (''Raft'', snd (vehicle_capacity ! 0)), (''Skiff'', snd (vehicle_capacity ! 1)),
            (''Clipper'', snd (vehicle_capacity ! 2)), (''Cargo Ship'', snd (vehicle_capacity ! 3)) ]
          [ trade.extend (rope_trades ! 0) (ranked.fields PInf []) ] = Inr rope_ranked"
    by (simp only: capacity_limits.simps sum.case rope_pass [OF v(1)] rope_pass [OF v(2)]
        rope_pass [OF v(3)] rope_pass [OF v(4)] append.simps rope_ranked_def
        all_vehicles_def list.map)
  with vc have "capacity_limits vehicle_capacity
          [ trade.extend (rope_trades ! 0) (ranked.fields PInf []) ] = Inr rope_ranked"
    by simp
  with ne show ?thesis
    by (simp only: rank_trades_def rope_with_distance if_False)
qed

lemma final_rope_ranked: "final_table rope_ranked = []"
  by (simp add: final_table_def dropna_def has_na_def replace_row_def rope_ranked_def
      all_vehicles_def trade.defs ranked.defs)

subsection \<open>The report assembler\<close>

lemma replace_inf_finite: "replace_inf x \<noteq> PInf" "replace_inf x \<noteq> NInf"
  by (cases x; simp)+

lemma replace_inf_NaN: "replace_inf x = NaN \<longleftrightarrow> x \<in> {PInf, NInf, NaN}"
  by (cases x) simp_all

lemma replace_inf_Fin: "replace_inf x = Fin d \<longleftrightarrow> x = Fin d"
  by (cases x) simp_all

lemma not_special_Fin: "x \<noteq> NaN \<Longrightarrow> x \<noteq> PInf \<Longrightarrow> x \<noteq> NInf \<Longrightarrow> \<exists>d. x = Fin d"
  by (cases x) simp_all

lemma replace_row_cols:
  "Distance (replace_row r) = replace_inf (Distance r)"
  "vehicle_columns (replace_row r) =
     map (\<lambda>nc. (fst nc,
            (snd nc)\<lparr> Profit_per_1k_Dist := replace_inf (Profit_per_1k_Dist (snd nc)) \<rparr>))
         (vehicle_columns r)"
  "target_claim claim_id (replace_row r) = target_claim claim_id r"
  by (simp_all add: replace_row_def target_claim_def)

lemma final_table_member:
  "r' \<in> set (final_table full_df) \<longleftrightarrow> (\<exists>r \<in> set full_df. r' = replace_row r) \<and> \<not> has_na r'"
  by (auto simp: final_table_def dropna_def)

lemma has_na_iff:
  "has_na r \<longleftrightarrow>
     Distance r = NaN \<or> (\<exists>nc \<in> set (vehicle_columns r). Profit_per_1k_Dist (snd nc) = NaN)"
  by (simp add: has_na_def list_ex_iff)

lemma replace_row_no_inf:
  "Distance (replace_row r) \<notin> {PInf, NInf}"
  "nc \<in> set (vehicle_columns (replace_row r)) \<Longrightarrow> Profit_per_1k_Dist (snd nc) \<notin> {PInf, NInf}"
  by (auto simp: replace_row_cols replace_inf_finite)

lemma final_table_finite:
  assumes "r \<in> set (final_table full_df)"
  shows "\<exists>d. Distance r = Fin d"
    and "\<forall>nc \<in> set (vehicle_columns r). \<exists>x. Profit_per_1k_Dist (snd nc) = Fin x"
proof -
  from assms obtain r0 where r: "r = replace_row r0" and na: "\<not> has_na r"
    by (auto simp: final_table_member)
  from na have "Distance r \<noteq> NaN" by (simp add: has_na_iff)
  moreover from r have "Distance r \<noteq> PInf" "Distance r \<noteq> NInf"
    using replace_row_no_inf(1) [of r0] by simp_all
  ultimately show "\<exists>d. Distance r = Fin d" by (rule not_special_Fin)
  show "\<forall>nc \<in> set (vehicle_columns r). \<exists>x. Profit_per_1k_Dist (snd nc) = Fin x"
  proof
    fix nc assume nc: "nc \<in> set (vehicle_columns r)"
    with na have "Profit_per_1k_Dist (snd nc) \<noteq> NaN" by (auto simp: has_na_iff)
    moreover from nc r have "Profit_per_1k_Dist (snd nc) \<noteq> PInf"
      "Profit_per_1k_Dist (snd nc) \<noteq> NInf"
      using replace_row_no_inf(2) [of nc r0] by simp_all
    ultimately show "\<exists>x. Profit_per_1k_Dist (snd nc) = Fin x" by (rule not_special_Fin)
  qed
qed

lemma unresolved_distance:
  assumes "rank_trades request claim_id X0 Z0 full_df = Inr tbl" and "r \<in> set tbl"
    and "request (target_claim claim_id r) = None"
  shows "Distance r = PInf"
  using rank_trades_rows(1) [OF assms(1,2)] assms(3)
  by (simp add: resolve_distances_lookup)

lemma distance_range:
  assumes "rank_trades request claim_id X0 Z0 full_df = Inr tbl" and "r \<in> set tbl"
  shows "Distance r = PInf \<or> (\<exists>d. Distance r = Fin d \<and> 0 \<le> d)"
  using rank_trades_rows(1) [OF assms] resolve_distances_nonneg
  by (auto split: option.splits)

lemma zero_distance_columns:
  assumes "rank_trades request claim_id X0 Z0 full_df = Inr tbl" and "r \<in> set tbl"
    and "Distance r = Fin 0"
  shows "vehicle_columns r \<noteq> []"
    and "\<forall>nc \<in> set (vehicle_columns r). Profit_per_1k_Dist (snd nc) \<in> {PInf, NInf, NaN}"
    and "has_na (replace_row r)"
proof -
  show ne: "vehicle_columns r \<noteq> []" by (rule rank_trades_rows(3) [OF assms(1,2)])
  show sp: "\<forall>nc \<in> set (vehicle_columns r). Profit_per_1k_Dist (snd nc) \<in> {PInf, NInf, NaN}"
  proof
    fix nc assume "nc \<in> set (vehicle_columns r)"
    with rank_trades_rows(2) [OF assms(1,2)] assms(3)
    have "Profit_per_1k_Dist (snd nc) = np_round (truediv (int64 (1000 * Profit (snd nc))) (Fin 0))"
      by simp
    with np_round_special [OF truediv_zero]
    show "Profit_per_1k_Dist (snd nc) \<in> {PInf, NInf, NaN}" by simp
  qed
  from ne obtain nc where nc: "nc \<in> set (vehicle_columns r)" by (cases "vehicle_columns r") auto
  with sp have "replace_inf (Profit_per_1k_Dist (snd nc)) = NaN"
    by (simp only: replace_inf_NaN)
  with nc show "has_na (replace_row r)"
    by (auto simp: has_na_iff replace_row_cols)
qed


lemma final_plank_ranked: "final_table plank_ranked = [plank_ranked ! 1]"
  by (simp add: final_table_def dropna_def has_na_def replace_row_def plank_ranked_def
      all_vehicles_def trade.defs ranked.defs)

text \<open>
  The claim whose distance a row gets is the other side of the trade: the buyer when the
  claim of interest sells, the seller when it buys.
\<close>

lemma target_claim_other_side:
  "sellClaimEntityId r = claim_id \<Longrightarrow> target_claim claim_id r = buyClaimEntityId r"
  "buyClaimEntityId r = claim_id \<Longrightarrow> target_claim claim_id r = sellClaimEntityId r"
  by (simp_all add: target_claim_def)

text \<open>
  Claim C5. Line 308 leaves no infinite value in any row, and line 309 drops every row
  that then holds a missing value, so every cell of the float columns of the final table
  is finite. A row of the ranked table in which the claim of interest sells and the
  request for the buying claim raised, or in which it buys and the request for the selling
  claim raised, has the infinite distance and is not in the final table, in whatever order
  line 300 leaves the rows: in every row of the final table the request for the other side
  of the trade succeeded.
\<close>

theorem final_table_complete:
  "(\<forall>r. Distance (replace_row r) \<notin> {PInf, NInf}
        \<and> (\<forall>nc \<in> set (vehicle_columns (replace_row r)).
              Profit_per_1k_Dist (snd nc) \<notin> {PInf, NInf}))
   \<and> (\<forall>r \<in> set sorted_df.
         has_na (replace_row r) \<longrightarrow> replace_row r \<notin> set (final_table sorted_df))
   \<and> (\<forall>r \<in> set (final_table sorted_df).
         (\<exists>d. Distance r = Fin d)
         \<and> (\<forall>nc \<in> set (vehicle_columns r). \<exists>x. Profit_per_1k_Dist (snd nc) = Fin x))
   \<and> (rank_trades request claim_id X0 Z0 full_df = Inr tbl \<and> mset sorted_df = mset tbl \<longrightarrow>
         (\<forall>r \<in> set sorted_df.
            (sellClaimEntityId r = claim_id \<and> request (buyClaimEntityId r) = None)
            \<or> (buyClaimEntityId r = claim_id \<and> request (sellClaimEntityId r) = None) \<longrightarrow>
              Distance r = PInf \<and> replace_row r \<notin> set (final_table sorted_df))
         \<and> (\<forall>r \<in> set (final_table sorted_df).
              (sellClaimEntityId r = claim_id \<longrightarrow> request (buyClaimEntityId r) \<noteq> None)
              \<and> (buyClaimEntityId r = claim_id \<longrightarrow> request (sellClaimEntityId r) \<noteq> None)))"
proof (intro conjI impI)
  show "\<forall>r. Distance (replace_row r) \<notin> {PInf, NInf}
        \<and> (\<forall>nc \<in> set (vehicle_columns (replace_row r)).
              Profit_per_1k_Dist (snd nc) \<notin> {PInf, NInf})"
    using replace_row_no_inf by blast
next
  show "\<forall>r \<in> set sorted_df.
         has_na (replace_row r) \<longrightarrow> replace_row r \<notin> set (final_table sorted_df)"
    by (simp add: final_table_member)
next
  show "\<forall>r \<in> set (final_table sorted_df).
         (\<exists>d. Distance r = Fin d)
         \<and> (\<forall>nc \<in> set (vehicle_columns r). \<exists>x. Profit_per_1k_Dist (snd nc) = Fin x)"
    using final_table_finite by blast
next
  assume a: "rank_trades request claim_id X0 Z0 full_df = Inr tbl \<and> mset sorted_df = mset tbl"
  then have rt: "rank_trades request claim_id X0 Z0 full_df = Inr tbl"
    and s: "set sorted_df = set tbl"
    by (auto dest: mset_eq_setD)
  show "\<forall>r \<in> set sorted_df.
            (sellClaimEntityId r = claim_id \<and> request (buyClaimEntityId r) = None)
            \<or> (buyClaimEntityId r = claim_id \<and> request (sellClaimEntityId r) = None) \<longrightarrow>
              Distance r = PInf \<and> replace_row r \<notin> set (final_table sorted_df)"
  proof (rule ballI, rule impI)
    fix r assume "r \<in> set sorted_df"
      and side: "(sellClaimEntityId r = claim_id \<and> request (buyClaimEntityId r) = None)
            \<or> (buyClaimEntityId r = claim_id \<and> request (sellClaimEntityId r) = None)"
    with s have m: "r \<in> set tbl" by simp
    from side have f: "request (target_claim claim_id r) = None"
      using target_claim_other_side [of r claim_id] by auto
    from unresolved_distance [OF rt m f] have d: "Distance r = PInf" .
    then have "has_na (replace_row r)" by (simp add: has_na_iff replace_row_cols)
    then have "replace_row r \<notin> set (final_table sorted_df)" by (simp add: final_table_member)
    with d show "Distance r = PInf \<and> replace_row r \<notin> set (final_table sorted_df)" by blast
  qed
next
  assume a: "rank_trades request claim_id X0 Z0 full_df = Inr tbl \<and> mset sorted_df = mset tbl"
  then have rt: "rank_trades request claim_id X0 Z0 full_df = Inr tbl"
    and s: "set sorted_df = set tbl"
    by (auto dest: mset_eq_setD)
  show "\<forall>r \<in> set (final_table sorted_df).
              (sellClaimEntityId r = claim_id \<longrightarrow> request (buyClaimEntityId r) \<noteq> None)
              \<and> (buyClaimEntityId r = claim_id \<longrightarrow> request (sellClaimEntityId r) \<noteq> None)"
  proof (rule ballI)
    fix r assume "r \<in> set (final_table sorted_df)"
    then obtain r0 where r0: "r0 \<in> set sorted_df" "r = replace_row r0" and na: "\<not> has_na r"
      unfolding final_table_member by blast
    from s r0 have m: "r0 \<in> set tbl" by simp
    have ok: "request (target_claim claim_id r0) \<noteq> None"
    proof
      assume f: "request (target_claim claim_id r0) = None"
      from unresolved_distance [OF rt m f] have "Distance r0 = PInf" .
      with r0 have "has_na r" by (simp add: has_na_iff replace_row_cols)
      with na show False by simp
    qed
    have ids: "sellClaimEntityId r = sellClaimEntityId r0" "buyClaimEntityId r = buyClaimEntityId r0"
      unfolding r0(2) by (simp_all add: replace_row_def)
    show "(sellClaimEntityId r = claim_id \<longrightarrow> request (buyClaimEntityId r) \<noteq> None)
              \<and> (buyClaimEntityId r = claim_id \<longrightarrow> request (sellClaimEntityId r) \<noteq> None)"
      unfolding ids using ok target_claim_other_side [of r0 claim_id] by auto
  qed
qed

text \<open>
  Port buys rope from Quarry and sells planks to Quarry; the request for Quarry raises.
  Both rows have the infinite distance and neither is in the final table.
\<close>

theorem final_table_complete_witness:
  "buyClaimEntityId (rope_ranked ! 0) = home_id
   \<and> sellClaimEntityId (rope_ranked ! 0) = ''300''
   \<and> claim_request ''300'' = None
   \<and> Distance (rope_ranked ! 0) = PInf
   \<and> replace_row (rope_ranked ! 0) \<notin> set (final_table rope_ranked)
   \<and> sellClaimEntityId (plank_ranked ! 2) = home_id
   \<and> buyClaimEntityId (plank_ranked ! 2) = ''300''
   \<and> Distance (plank_ranked ! 2) = PInf
   \<and> replace_row (plank_ranked ! 2) \<notin> set (final_table plank_ranked)
   \<and> map Distance (final_table plank_ranked) = [Fin 1.67]"
proof -
  have f: "claim_request ''300'' = None" by (simp add: claim_request_def)
  have rope_ids: "buyClaimEntityId (rope_ranked ! 0) = home_id"
    "sellClaimEntityId (rope_ranked ! 0) = ''300''"
    by (simp_all add: rope_ranked_def rope_trades_def home_id_def trade.defs ranked.defs)
  have plank_ids: "sellClaimEntityId (plank_ranked ! 2) = home_id"
    "buyClaimEntityId (plank_ranked ! 2) = ''300''"
    by (simp_all add: plank_ranked_def plank_trades_def home_id_def trade.defs ranked.defs)
  have rm: "rope_ranked ! 0 \<in> set rope_ranked" by (simp add: rope_ranked_def)
  have pm: "plank_ranked ! 2 \<in> set plank_ranked" by (simp add: plank_ranked_def)
  have "rank_trades claim_request home_id 0 0 rope_trades = Inr rope_ranked
        \<and> mset rope_ranked = mset rope_ranked"
    by (simp add: rank_rope_trades)
  with final_table_complete [of rope_ranked claim_request home_id 0 0 rope_trades rope_ranked]
  have "\<forall>r \<in> set rope_ranked.
          (sellClaimEntityId r = home_id \<and> claim_request (buyClaimEntityId r) = None)
          \<or> (buyClaimEntityId r = home_id \<and> claim_request (sellClaimEntityId r) = None) \<longrightarrow>
            Distance r = PInf \<and> replace_row r \<notin> set (final_table rope_ranked)"
    by blast
  with rm rope_ids f have rope: "Distance (rope_ranked ! 0) = PInf
      \<and> replace_row (rope_ranked ! 0) \<notin> set (final_table rope_ranked)"
    by simp
  have "rank_trades claim_request home_id 0 0 plank_trades = Inr plank_ranked
        \<and> mset plank_ranked = mset plank_ranked"
    by (simp add: rank_plank_trades)
  with final_table_complete [of plank_ranked claim_request home_id 0 0 plank_trades plank_ranked]
  have "\<forall>r \<in> set plank_ranked.
          (sellClaimEntityId r = home_id \<and> claim_request (buyClaimEntityId r) = None)
          \<or> (buyClaimEntityId r = home_id \<and> claim_request (sellClaimEntityId r) = None) \<longrightarrow>
            Distance r = PInf \<and> replace_row r \<notin> set (final_table plank_ranked)"
    by blast
  with pm plank_ids f have plank: "Distance (plank_ranked ! 2) = PInf
      \<and> replace_row (plank_ranked ! 2) \<notin> set (final_table plank_ranked)"
    by simp
  have "map Distance (final_table plank_ranked) = [Fin 1.67]"
    by (simp add: final_plank_ranked) (simp add: plank_ranked_def trade.defs ranked.defs)
  with rope plank rope_ids plank_ids f show ?thesis by blast
qed

text \<open>
  Claim C10. A table with rows and without a zero volume is ranked without an exception,
  whatever the distances. In a row of distance 0 every profit-per-distance column is
  infinite or missing, and the row is not in the final table; every row of the final
  table has a finite distance above 0.
\<close>

theorem zero_distance_rows_dropped:
  "(full_df \<noteq> [] \<and> (\<forall>t \<in> set full_df. itemVolume t \<noteq> 0) \<longrightarrow>
      (\<exists>tbl. rank_trades request claim_id X0 Z0 full_df = Inr tbl))
   \<and> (rank_trades request claim_id X0 Z0 full_df = Inr tbl \<and> mset sorted_df = mset tbl \<longrightarrow>
         (\<forall>r \<in> set sorted_df.
            Distance r = Fin 0 \<longrightarrow>
              vehicle_columns r \<noteq> []
              \<and> (\<forall>nc \<in> set (vehicle_columns r).
                    Profit_per_1k_Dist (snd nc) \<in> {PInf, NInf, NaN})
              \<and> replace_row r \<notin> set (final_table sorted_df))
         \<and> (\<forall>r \<in> set (final_table sorted_df). \<exists>d. Distance r = Fin d \<and> 0 < d))"
proof (intro conjI impI)
  assume "full_df \<noteq> [] \<and> (\<forall>t \<in> set full_df. itemVolume t \<noteq> 0)"
  then show "\<exists>tbl. rank_trades request claim_id X0 Z0 full_df = Inr tbl"
    by (simp add: rank_trades_total)
next
  assume a: "rank_trades request claim_id X0 Z0 full_df = Inr tbl \<and> mset sorted_df = mset tbl"
  then have rt: "rank_trades request claim_id X0 Z0 full_df = Inr tbl"
    and s: "set sorted_df = set tbl"
    by (auto dest: mset_eq_setD)
  show "\<forall>r \<in> set sorted_df.
            Distance r = Fin 0 \<longrightarrow>
              vehicle_columns r \<noteq> []
              \<and> (\<forall>nc \<in> set (vehicle_columns r).
                    Profit_per_1k_Dist (snd nc) \<in> {PInf, NInf, NaN})
              \<and> replace_row r \<notin> set (final_table sorted_df)"
  proof (rule ballI, rule impI)
    fix r assume "r \<in> set sorted_df" and z: "Distance r = Fin 0"
    with s have m: "r \<in> set tbl" by simp
    from zero_distance_columns(3) [OF rt m z]
    have "replace_row r \<notin> set (final_table sorted_df)"
      by (simp add: final_table_member)
    with zero_distance_columns(1,2) [OF rt m z]
    show "vehicle_columns r \<noteq> []
              \<and> (\<forall>nc \<in> set (vehicle_columns r).
                    Profit_per_1k_Dist (snd nc) \<in> {PInf, NInf, NaN})
              \<and> replace_row r \<notin> set (final_table sorted_df)"
      by blast
  qed
next
  assume a: "rank_trades request claim_id X0 Z0 full_df = Inr tbl \<and> mset sorted_df = mset tbl"
  then have rt: "rank_trades request claim_id X0 Z0 full_df = Inr tbl"
    and s: "set sorted_df = set tbl"
    by (auto dest: mset_eq_setD)
  show "\<forall>r \<in> set (final_table sorted_df). \<exists>d. Distance r = Fin d \<and> 0 < d"
  proof (rule ballI)
    fix r assume r: "r \<in> set (final_table sorted_df)"
    then obtain r0 where r0: "r0 \<in> set sorted_df" "r = replace_row r0" and na: "\<not> has_na r"
      unfolding final_table_member by blast
    from s r0 have m: "r0 \<in> set tbl" by simp
    from final_table_finite(1) [OF r] obtain d where d: "Distance r = Fin d" by blast
    with r0 have d0: "Distance r0 = Fin d" by (simp add: replace_row_cols replace_inf_Fin)
    from distance_range [OF rt m] d0 have "0 \<le> d" by simp
    moreover have "d \<noteq> 0"
    proof
      assume "d = 0"
      with d0 have "Distance r0 = Fin 0" by simp
      from zero_distance_columns(3) [OF rt m this] r0 na show False by simp
    qed
    ultimately have "0 < d" by simp
    with d show "\<exists>d. Distance r = Fin d \<and> 0 < d" by blast
  qed
qed

theorem zero_distance_rows_dropped_witness:
  "Distance (plank_ranked ! 0) = Fin 0
   \<and> map (Profit_per_1k_Dist \<circ> snd) (vehicle_columns (plank_ranked ! 0)) = [PInf, PInf, PInf, PInf]
   \<and> replace_row (plank_ranked ! 0) \<notin> set (final_table plank_ranked)"
proof -
  have z: "Distance (plank_ranked ! 0) = Fin 0"
    by (simp add: plank_ranked_def trade.defs ranked.defs)
  have m: "plank_ranked ! 0 \<in> set plank_ranked" by (simp add: plank_ranked_def)
  have "rank_trades claim_request home_id 0 0 plank_trades = Inr plank_ranked
        \<and> mset plank_ranked = mset plank_ranked"
    by (simp add: rank_plank_trades)
  with zero_distance_rows_dropped
    [of plank_trades claim_request home_id 0 0 plank_ranked plank_ranked]
  have "\<forall>r \<in> set plank_ranked.
          Distance r = Fin 0 \<longrightarrow>
            vehicle_columns r \<noteq> []
            \<and> (\<forall>nc \<in> set (vehicle_columns r). Profit_per_1k_Dist (snd nc) \<in> {PInf, NInf, NaN})
            \<and> replace_row r \<notin> set (final_table plank_ranked)"
    by blast
  with m z have "replace_row (plank_ranked ! 0) \<notin> set (final_table plank_ranked)" by blast
  moreover have
    "map (Profit_per_1k_Dist \<circ> snd) (vehicle_columns (plank_ranked ! 0)) = [PInf, PInf, PInf, PInf]"
    by (simp add: plank_ranked_def all_vehicles_def trade.defs ranked.defs)
  ultimately show ?thesis using z by blast
qed

lemma length_pd_unique: "length (pd_unique xs) = card (set xs)"
  by (simp add: pd_unique_def length_remdups_card_conv)

text \<open>
  Claim C9, amended. For a final table with rows, cell G14 holds the number of distinct
  claim names in the buying and selling columns together. When every row names the home
  claim on one side, that is the number of the other names plus one.
\<close>

theorem overview_counts_claim_names:
  fixes full_df :: "ranked list"
  defines "names \<equiv> Buying_Claim ` set full_df \<union> Selling_Claim ` set full_df"
  shows "(full_df \<noteq> [] \<longrightarrow>
            map_option G14 (upload_overview full_df) = Some (card names))
       \<and> (full_df \<noteq> [] \<and> (\<forall>r \<in> set full_df. Buying_Claim r = home \<or> Selling_Claim r = home)
            \<longrightarrow> map_option G14 (upload_overview full_df) = Some (card (names - {home}) + 1))"
proof (intro conjI impI)
  have n: "overview_claim_N full_df = card names"
    unfolding overview_claim_N_def length_pd_unique names_def by simp
  {
    assume "full_df \<noteq> []"
    then show "map_option G14 (upload_overview full_df) = Some (card names)"
      by (simp add: upload_overview_def n)
  }
  assume a: "full_df \<noteq> [] \<and> (\<forall>r \<in> set full_df. Buying_Claim r = home \<or> Selling_Claim r = home)"
  then obtain r where r: "r \<in> set full_df" by (cases full_df) auto
  with a have "Buying_Claim r = home \<or> Selling_Claim r = home" by blast
  with r have "home \<in> names" unfolding names_def by blast
  moreover have "finite names" unfolding names_def by simp
  ultimately have "card names = card (names - {home}) + 1"
    by (simp only: card.remove [of names home] Suc_eq_plus1)
  moreover from a have "map_option G14 (upload_overview full_df) = Some (card names)"
    by (simp add: upload_overview_def n)
  ultimately show "map_option G14 (upload_overview full_df) = Some (card (names - {home}) + 1)"
    by (simp only:)
qed


theorem overview_counts_claim_names_witness:
  "map_option G14 (upload_overview (final_table plank_ranked)) = Some 2"
proof -
  have ne: "final_table plank_ranked \<noteq> []" by (simp add: final_plank_ranked)
  have n: "Buying_Claim ` set (final_table plank_ranked)
             \<union> Selling_Claim ` set (final_table plank_ranked) = {''Mill'', ''Port''}"
    by (simp add: final_plank_ranked)
       (auto simp: plank_ranked_def plank_trades_def trade.defs ranked.defs)
  have c: "card (Buying_Claim ` set (final_table plank_ranked)
             \<union> Selling_Claim ` set (final_table plank_ranked)) = 2"
    unfolding n by simp
  from overview_counts_claim_names [of "final_table plank_ranked", THEN conjunct1] ne
  have "map_option G14 (upload_overview (final_table plank_ranked)) =
          Some (card (Buying_Claim ` set (final_table plank_ranked)
             \<union> Selling_Claim ` set (final_table plank_ranked)))"
    by blast
  then show ?thesis unfolding c .
qed

text \<open>
  Claim C9 as worded fails: the final table of the plank market has the single
  counterparty Mill, and the cell holds 2, for Mill and Port.
\<close>

theorem overview_counterparty_counterexample:
  "rank_trades claim_request home_id 0 0 (collect_trades market_request home_id [plank])
     = Inr plank_ranked
   \<and> map_option G14 (upload_overview (final_table plank_ranked)) = Some 2
   \<and> distinct_counterparties home_id (final_table plank_ranked) = 1"
proof -
  have "map_option G14 (upload_overview (final_table plank_ranked)) = Some 2"
    by (simp add: final_plank_ranked upload_overview_def overview_claim_N_def pd_unique_def)
       (simp add: plank_ranked_def plank_trades_def trade.defs ranked.defs)
  moreover have "distinct_counterparties home_id (final_table plank_ranked) = 1"
    by (simp add: final_plank_ranked distinct_counterparties_def)
       (simp add: plank_ranked_def plank_trades_def home_id_def trade.defs ranked.defs)
  ultimately show ?thesis
    by (simp add: collect_plank_trades rank_plank_trades)
qed

end
